theory Spec2Isabelle
  imports Complex_Main "HOL-Library.AList" "HOL-Library.Char_ord" "HOL-Library.List_Lexorder"
begin

section \<open>Data model (model.py)\<close>

subsection \<open>Enumerations\<close>

datatype NodeType =
    IPXACT_COMPONENT | IPXACT_DESIGN | IPXACT_DESIGN_CONFIG | IPXACT_ABSTRACTION_DEF
  | IPXACT_CATALOG | IPXACT_GENERATOR_CHAIN
  | SDC_CONSTRAINT | UPF_POWER | CDC_CONSTRAINT | RESET_SCHEME
  | RTL_SOURCE | FPGA_SOURCE | RTL_WRAPPER | RTL_FILELIST
  | REGISTER_MAP | UVM_RAL_MODEL | C_HEADER | REGISTER_DOC | MEMORY_MAP | LINKER_SCRIPT
  | ADDRESS_DECODE
  | BUS_VIP_CONFIG | PROTOCOL_CHECKER | TESTBENCH_TOP
  | PIN_MAPPING | FLOORPLAN_CONSTRAINT | IO_PAD_CONFIG | DEF_LEF_CONSTRAINT
  | EDA_SCRIPT | VENDOR_EXTENSION
  | CONFIG_PARAM | DOCUMENTATION

fun NodeType_value :: "NodeType \<Rightarrow> string" where
  "NodeType_value IPXACT_COMPONENT = ''ipxact_component''"
| "NodeType_value IPXACT_DESIGN = ''ipxact_design''"
| "NodeType_value IPXACT_DESIGN_CONFIG = ''ipxact_design_config''"
| "NodeType_value IPXACT_ABSTRACTION_DEF = ''ipxact_abstraction_def''"
| "NodeType_value IPXACT_CATALOG = ''ipxact_catalog''"
| "NodeType_value IPXACT_GENERATOR_CHAIN = ''ipxact_generator_chain''"
| "NodeType_value SDC_CONSTRAINT = ''sdc_constraint''"
| "NodeType_value UPF_POWER = ''upf_power''"
| "NodeType_value CDC_CONSTRAINT = ''cdc_constraint''"
| "NodeType_value RESET_SCHEME = ''reset_scheme''"
| "NodeType_value RTL_SOURCE = ''rtl_source''"
| "NodeType_value FPGA_SOURCE = ''fpga_source''"
| "NodeType_value RTL_WRAPPER = ''rtl_wrapper''"
| "NodeType_value RTL_FILELIST = ''rtl_filelist''"
| "NodeType_value REGISTER_MAP = ''register_map''"
| "NodeType_value UVM_RAL_MODEL = ''uvm_ral_model''"
| "NodeType_value C_HEADER = ''c_header''"
| "NodeType_value REGISTER_DOC = ''register_doc''"
| "NodeType_value MEMORY_MAP = ''memory_map''"
| "NodeType_value LINKER_SCRIPT = ''linker_script''"
| "NodeType_value ADDRESS_DECODE = ''address_decode''"
| "NodeType_value BUS_VIP_CONFIG = ''bus_vip_config''"
| "NodeType_value PROTOCOL_CHECKER = ''protocol_checker''"
| "NodeType_value TESTBENCH_TOP = ''testbench_top''"
| "NodeType_value PIN_MAPPING = ''pin_mapping''"
| "NodeType_value FLOORPLAN_CONSTRAINT = ''floorplan_constraint''"
| "NodeType_value IO_PAD_CONFIG = ''io_pad_config''"
| "NodeType_value DEF_LEF_CONSTRAINT = ''def_lef_constraint''"
| "NodeType_value EDA_SCRIPT = ''eda_script''"
| "NodeType_value VENDOR_EXTENSION = ''vendor_extension''"
| "NodeType_value CONFIG_PARAM = ''config_param''"
| "NodeType_value DOCUMENTATION = ''documentation''"

definition all_NodeType :: "NodeType list" where
  "all_NodeType =
    [IPXACT_COMPONENT, IPXACT_DESIGN, IPXACT_DESIGN_CONFIG, IPXACT_ABSTRACTION_DEF,
     IPXACT_CATALOG, IPXACT_GENERATOR_CHAIN, SDC_CONSTRAINT, UPF_POWER, CDC_CONSTRAINT,
     RESET_SCHEME, RTL_SOURCE, FPGA_SOURCE, RTL_WRAPPER, RTL_FILELIST, REGISTER_MAP,
     UVM_RAL_MODEL, C_HEADER, REGISTER_DOC, MEMORY_MAP, LINKER_SCRIPT, ADDRESS_DECODE,
     BUS_VIP_CONFIG, PROTOCOL_CHECKER, TESTBENCH_TOP, PIN_MAPPING, FLOORPLAN_CONSTRAINT,
     IO_PAD_CONFIG, DEF_LEF_CONSTRAINT, EDA_SCRIPT, VENDOR_EXTENSION, CONFIG_PARAM,
     DOCUMENTATION]"

datatype EdgeType =
    GENERATES | CONSTRAINS | REFERENCES | MAPS_TO | DERIVES_FROM | CONFIGURES
  | INSTANTIATES | ABSTRACTS | VALIDATES

fun EdgeType_value :: "EdgeType \<Rightarrow> string" where
  "EdgeType_value GENERATES = ''generates''"
| "EdgeType_value CONSTRAINS = ''constrains''"
| "EdgeType_value REFERENCES = ''references''"
| "EdgeType_value MAPS_TO = ''maps_to''"
| "EdgeType_value DERIVES_FROM = ''derives_from''"
| "EdgeType_value CONFIGURES = ''configures''"
| "EdgeType_value INSTANTIATES = ''instantiates''"
| "EdgeType_value ABSTRACTS = ''abstracts''"
| "EdgeType_value VALIDATES = ''validates''"

definition all_EdgeType :: "EdgeType list" where
  "all_EdgeType = [GENERATES, CONSTRAINS, REFERENCES, MAPS_TO, DERIVES_FROM, CONFIGURES,
     INSTANTIATES, ABSTRACTS, VALIDATES]"

datatype Domain =
    FRONTEND | VERIFICATION | DFT | PHYSICAL_DESIGN | SIGNOFF | FPGA_TRANSLATION
  | FIRMWARE | GLOBAL

fun Domain_value :: "Domain \<Rightarrow> string" where
  "Domain_value FRONTEND = ''frontend_design''"
| "Domain_value VERIFICATION = ''verification''"
| "Domain_value DFT = ''dft''"
| "Domain_value PHYSICAL_DESIGN = ''physical_design''"
| "Domain_value SIGNOFF = ''signoff''"
| "Domain_value FPGA_TRANSLATION = ''fpga_translation''"
| "Domain_value FIRMWARE = ''firmware''"
| "Domain_value GLOBAL = ''global''"

definition all_Domain :: "Domain list" where
  "all_Domain = [FRONTEND, VERIFICATION, DFT, PHYSICAL_DESIGN, SIGNOFF, FPGA_TRANSLATION,
     FIRMWARE, GLOBAL]"

text \<open>Calling an enumeration class on a value string (\<^verbatim>\<open>NodeType("sdc_constraint")\<close>)
  finds the member with that value; Python raises ValueError when there is none.\<close>

definition NodeType_of_value :: "string \<Rightarrow> NodeType option" where
  "NodeType_of_value s = find (\<lambda>t. NodeType_value t = s) all_NodeType"

definition EdgeType_of_value :: "string \<Rightarrow> EdgeType option" where
  "EdgeType_of_value s = find (\<lambda>t. EdgeType_value t = s) all_EdgeType"

definition Domain_of_value :: "string \<Rightarrow> Domain option" where
  "Domain_of_value s = find (\<lambda>t. Domain_value t = s) all_Domain"

subsection \<open>Free-form values\<close>

text \<open>The values held by metadata dictionaries and mapping-detail records: None, strings,
  numbers (Python's int and float, as rationals) and lists of values.\<close>

datatype pyval = PNone | PStr string | PNum rat | PList "pyval list"

text \<open>Python truthiness (\<^verbatim>\<open>if val:\<close>).\<close>

fun truthy :: "pyval \<Rightarrow> bool" where
  "truthy PNone = False"
| "truthy (PStr s) = (s \<noteq> [])"
| "truthy (PNum q) = (q \<noteq> 0)"
| "truthy (PList xs) = (xs \<noteq> [])"

type_synonym pydict = "(string \<times> pyval) list"

subsection \<open>Errors\<close>

datatype error =
    ValueError string
  | KeyError string
  | RuntimeError string
  | TypeError string
  | FileNotFoundError string
  | NetworkXError string

definition quoted :: "string \<Rightarrow> string" where
  "quoted s = CHR 0x27 # s @ [CHR 0x27]"

subsection \<open>Data classes\<close>

record ArtifactNode =
  node_id :: string
  name :: string
  node_type :: NodeType
  domain :: Domain
  file_path :: "string option"
  description :: string
  eda_tool :: string
  version :: string
  tags :: "string list"
  metadata :: pydict
  defined_elements :: "(string \<times> string list) list"
  file_hash :: "string option"
  last_checked :: "rat option"

record DependencyEdge =
  source_id :: string
  target_id :: string
  edge_type :: EdgeType
  label :: string
  e_domain :: Domain
  e_metadata :: pydict
  mapping_details :: "pydict list"

definition edge_id :: "DependencyEdge \<Rightarrow> string" where
  "edge_id e = source_id e @ ''--'' @ EdgeType_value (edge_type e) @ ''-->'' @ target_id e"

section \<open>The directed graph of the networkx library\<close>

text \<open>Modelled from the library's documented behaviour (networkx is imported by
  graph_manager.py, it is not part of the repository): a \<^verbatim>\<open>DiGraph\<close> holds one
  attribute dictionary per node and one per ordered pair of adjacent nodes, both in insertion
  order. There is at most one adjacency entry per ordered pair, whatever the number of
  \<^verbatim>\<open>add_edge\<close> calls for it.\<close>

type_synonym attrs = "(string \<times> string) list"

record DiGraph =
  g_node :: "(string \<times> attrs) list"
  g_adj :: "((string \<times> string) \<times> attrs) list"

definition nx_empty :: DiGraph where
  "nx_empty = \<lparr>g_node = [], g_adj = []\<rparr>"

definition has_key :: "'k \<Rightarrow> ('k \<times> 'v) list \<Rightarrow> bool" where
  "has_key k d = (map_of d k \<noteq> None)"

text \<open>\<^verbatim>\<open>d.update(kw)\<close>: each key of \<open>kw\<close> is overwritten in place or appended.\<close>

definition dict_update :: "('k \<times> 'v) list \<Rightarrow> ('k \<times> 'v) list \<Rightarrow> ('k \<times> 'v) list" where
  "dict_update kw d = foldl (\<lambda>acc (k, v). AList.update k v acc) d kw"

definition nx_add_node :: "string \<Rightarrow> attrs \<Rightarrow> DiGraph \<Rightarrow> DiGraph" where
  "nx_add_node n a G =
     G\<lparr>g_node := AList.update n (dict_update a (case map_of (g_node G) n of
                                                  None \<Rightarrow> [] | Some old \<Rightarrow> old)) (g_node G)\<rparr>"

definition nx_ensure_node :: "string \<Rightarrow> DiGraph \<Rightarrow> DiGraph" where
  "nx_ensure_node n G = (if has_key n (g_node G) then G else G\<lparr>g_node := g_node G @ [(n, [])]\<rparr>)"

definition nx_add_edge :: "string \<Rightarrow> string \<Rightarrow> attrs \<Rightarrow> DiGraph \<Rightarrow> DiGraph" where
  "nx_add_edge u v a G =
     (let G1 = nx_ensure_node v (nx_ensure_node u G)
      in G1\<lparr>g_adj := AList.update (u, v) (dict_update a (case map_of (g_adj G1) (u, v) of
                                                    None \<Rightarrow> [] | Some old \<Rightarrow> old)) (g_adj G1)\<rparr>)"

definition nx_remove_node :: "string \<Rightarrow> DiGraph \<Rightarrow> error + DiGraph" where
  "nx_remove_node n G =
     (if \<not> has_key n (g_node G) then Inl (NetworkXError n)
      else Inr \<lparr>g_node = AList.delete n (g_node G),
                g_adj = filter (\<lambda>((u, v), a). u \<noteq> n \<and> v \<noteq> n) (g_adj G)\<rparr>)"

definition nx_remove_edge :: "string \<Rightarrow> string \<Rightarrow> DiGraph \<Rightarrow> error + DiGraph" where
  "nx_remove_edge u v G =
     (if \<not> has_key (u, v) (g_adj G) then Inl (NetworkXError (u @ ''-'' @ v))
      else Inr (G\<lparr>g_adj := AList.delete (u, v) (g_adj G)\<rparr>))"

definition nx_successors :: "string \<Rightarrow> DiGraph \<Rightarrow> error + string list" where
  "nx_successors n G =
     (if \<not> has_key n (g_node G) then Inl (NetworkXError n)
      else Inr (map (\<lambda>((u, v), a). v) (filter (\<lambda>((u, v), a). u = n) (g_adj G))))"

definition nx_predecessors :: "string \<Rightarrow> DiGraph \<Rightarrow> error + string list" where
  "nx_predecessors n G =
     (if \<not> has_key n (g_node G) then Inl (NetworkXError n)
      else Inr (map (\<lambda>((u, v), a). u) (filter (\<lambda>((u, v), a). v = n) (g_adj G))))"

section \<open>Graph store (graph_manager.py)\<close>

record GraphManager =
  gm_nodes :: "(string \<times> ArtifactNode) list"
  gm_edges :: "(string \<times> DependencyEdge) list"
  gm_graph :: DiGraph

definition GraphManager_init :: GraphManager where
  "GraphManager_init = \<lparr>gm_nodes = [], gm_edges = [], gm_graph = nx_empty\<rparr>"

definition node_attrs :: "ArtifactNode \<Rightarrow> attrs" where
  "node_attrs node =
     [(''label'', name node), (''node_type'', NodeType_value (node_type node)),
      (''domain'', Domain_value (domain node)), (''eda_tool'', eda_tool node)]"

definition edge_attrs :: "DependencyEdge \<Rightarrow> attrs" where
  "edge_attrs e =
     [(''edge_type'', EdgeType_value (edge_type e)), (''label'', label e),
      (''domain'', Domain_value (e_domain e))]"

text \<open>Every mutating operation returns the exception it raised, if any, and the state the
  store is left in (the state at the raise when it failed).\<close>

definition add_node :: "ArtifactNode \<Rightarrow> GraphManager \<Rightarrow> error option \<times> GraphManager" where
  "add_node node gm =
     (if has_key (node_id node) (gm_nodes gm)
      then (Some (ValueError (''Node '' @ quoted (node_id node) @ '' already exists. Use update_node().'')), gm)
      else (None, gm\<lparr>gm_nodes := AList.update (node_id node) node (gm_nodes gm),
                     gm_graph := nx_add_node (node_id node) (node_attrs node) (gm_graph gm)\<rparr>))"

definition update_node :: "ArtifactNode \<Rightarrow> GraphManager \<Rightarrow> error option \<times> GraphManager" where
  "update_node node gm =
     (if \<not> has_key (node_id node) (gm_nodes gm)
      then (Some (KeyError (''Node '' @ quoted (node_id node) @ '' not found.'')), gm)
      else
        (let gm1 = gm\<lparr>gm_nodes := AList.update (node_id node) node (gm_nodes gm)\<rparr>
         in if \<not> has_key (node_id node) (g_node (gm_graph gm1))
            then (Some (KeyError (node_id node)), gm1)
            else (None, gm1\<lparr>gm_graph := nx_add_node (node_id node) (node_attrs node) (gm_graph gm1)\<rparr>)))"

definition remove_node :: "string \<Rightarrow> GraphManager \<Rightarrow> error option \<times> GraphManager" where
  "remove_node nid gm =
     (if \<not> has_key nid (gm_nodes gm)
      then (Some (KeyError (''Node '' @ quoted nid @ '' not found.'')), gm)
      else
        (let edges_to_remove =
               map fst (filter (\<lambda>(eid, e). source_id e = nid \<or> target_id e = nid) (gm_edges gm));
             gm1 = gm\<lparr>gm_edges := foldl (\<lambda>d eid. AList.delete eid d) (gm_edges gm) edges_to_remove\<rparr>
         in case nx_remove_node nid (gm_graph gm1) of
              Inl err \<Rightarrow> (Some err, gm1)
            | Inr G \<Rightarrow> (None, gm1\<lparr>gm_graph := G, gm_nodes := AList.delete nid (gm_nodes gm1)\<rparr>)))"

definition get_node :: "string \<Rightarrow> GraphManager \<Rightarrow> error + ArtifactNode" where
  "get_node nid gm =
     (case map_of (gm_nodes gm) nid of
        None \<Rightarrow> Inl (KeyError (''Node '' @ quoted nid @ '' not found.''))
      | Some n \<Rightarrow> Inr n)"

definition add_edge :: "DependencyEdge \<Rightarrow> GraphManager \<Rightarrow> error option \<times> GraphManager" where
  "add_edge edge gm =
     (if \<not> has_key (source_id edge) (gm_nodes gm)
      then (Some (KeyError (''Source node '' @ quoted (source_id edge) @ '' not found.'')), gm)
      else if \<not> has_key (target_id edge) (gm_nodes gm)
      then (Some (KeyError (''Target node '' @ quoted (target_id edge) @ '' not found.'')), gm)
      else
        (let eid = edge_id edge
         in if has_key eid (gm_edges gm)
            then (Some (ValueError (''Edge '' @ quoted eid @ '' already exists.'')), gm)
            else (None, gm\<lparr>gm_edges := AList.update eid edge (gm_edges gm),
                           gm_graph := nx_add_edge (source_id edge) (target_id edge)
                                       (edge_attrs edge) (gm_graph gm)\<rparr>)))"

definition remove_edge ::
  "string \<Rightarrow> string \<Rightarrow> EdgeType \<Rightarrow> GraphManager \<Rightarrow> error option \<times> GraphManager" where
  "remove_edge src tgt et gm =
     (let eid = src @ ''--'' @ EdgeType_value et @ ''-->'' @ tgt
      in if \<not> has_key eid (gm_edges gm)
         then (Some (KeyError (''Edge '' @ quoted eid @ '' not found.'')), gm)
         else
           (let gm1 = gm\<lparr>gm_edges := AList.delete eid (gm_edges gm)\<rparr>
            in case nx_remove_edge src tgt (gm_graph gm1) of
                 Inl err \<Rightarrow> (Some err, gm1)
               | Inr G \<Rightarrow> (None, gm1\<lparr>gm_graph := G\<rparr>)))"

definition get_edges_from :: "string \<Rightarrow> GraphManager \<Rightarrow> DependencyEdge list" where
  "get_edges_from nid gm = filter (\<lambda>e. source_id e = nid) (map snd (gm_edges gm))"

definition get_edges_to :: "string \<Rightarrow> GraphManager \<Rightarrow> DependencyEdge list" where
  "get_edges_to nid gm = filter (\<lambda>e. target_id e = nid) (map snd (gm_edges gm))"

definition predecessors :: "string \<Rightarrow> GraphManager \<Rightarrow> error + string list" where
  "predecessors nid gm = nx_predecessors nid (gm_graph gm)"

definition successors :: "string \<Rightarrow> GraphManager \<Rightarrow> error + string list" where
  "successors nid gm = nx_successors nid (gm_graph gm)"

text \<open>The store's node table and the library graph name the same nodes.\<close>

definition in_sync :: "GraphManager \<Rightarrow> bool" where
  "in_sync gm = (set (map fst (gm_nodes gm)) = set (map fst (g_node (gm_graph gm))))"


section \<open>Schema registry (model.py)\<close>

datatype MappingCategory =
    PORT_NAMING | CLOCK_DOMAIN | CLOCK_CONSTRAINT | RESET_DOMAIN | RESET_CONSTRAINT
  | IO_TIMING | FALSE_PATH | MULTICYCLE_PATH | CLOCK_GROUP | POWER_DOMAIN
  | ISOLATION_STRATEGY | RETENTION_STRATEGY | LEVEL_SHIFTER | BUS_INTERFACE
  | MEMORY_MAP_MAPPING | REGISTER_BLOCK | ADDRESS_SPACE | CDC_CROSSING | PIN_ASSIGNMENT
  | HIERARCHY_MAPPING | FILELIST_ENTRY

text \<open>\<open>MEMORY_MAP_MAPPING\<close> is the source's \<^verbatim>\<open>MappingCategory.MEMORY_MAP\<close>, renamed
  apart from the node kind of the same name.\<close>

fun MappingCategory_value :: "MappingCategory \<Rightarrow> string" where
  "MappingCategory_value PORT_NAMING = ''port_naming''"
| "MappingCategory_value CLOCK_DOMAIN = ''clock_domain''"
| "MappingCategory_value CLOCK_CONSTRAINT = ''clock_constraint''"
| "MappingCategory_value RESET_DOMAIN = ''reset_domain''"
| "MappingCategory_value RESET_CONSTRAINT = ''reset_constraint''"
| "MappingCategory_value IO_TIMING = ''io_timing''"
| "MappingCategory_value FALSE_PATH = ''false_path''"
| "MappingCategory_value MULTICYCLE_PATH = ''multicycle_path''"
| "MappingCategory_value CLOCK_GROUP = ''clock_group''"
| "MappingCategory_value POWER_DOMAIN = ''power_domain''"
| "MappingCategory_value ISOLATION_STRATEGY = ''isolation_strategy''"
| "MappingCategory_value RETENTION_STRATEGY = ''retention_strategy''"
| "MappingCategory_value LEVEL_SHIFTER = ''level_shifter''"
| "MappingCategory_value BUS_INTERFACE = ''bus_interface''"
| "MappingCategory_value MEMORY_MAP_MAPPING = ''memory_map_mapping''"
| "MappingCategory_value REGISTER_BLOCK = ''register_block''"
| "MappingCategory_value ADDRESS_SPACE = ''address_space''"
| "MappingCategory_value CDC_CROSSING = ''cdc_crossing''"
| "MappingCategory_value PIN_ASSIGNMENT = ''pin_assignment''"
| "MappingCategory_value HIERARCHY_MAPPING = ''hierarchy_mapping''"
| "MappingCategory_value FILELIST_ENTRY = ''filelist_entry''"

record schema =
  s_category :: string
  required_fields :: "string list"
  s_description :: string
  conditional :: bool

text \<open>A schema entry; \<open>cond\<close> is the entry's \<^verbatim>\<open>"conditional"\<close> key, read with
  \<^verbatim>\<open>schema.get("conditional", False)\<close>.\<close>

definition entry :: "MappingCategory \<Rightarrow> string list \<Rightarrow> string \<Rightarrow> bool \<Rightarrow> schema" where
  "entry c fs d cond =
     \<lparr>s_category = MappingCategory_value c, required_fields = fs, s_description = d,
      conditional = cond\<rparr>"

definition EXPECTED_MAPPING_FIELDS :: "((NodeType \<times> NodeType) \<times> schema list) list" where
  "EXPECTED_MAPPING_FIELDS =
   [((IPXACT_COMPONENT, SDC_CONSTRAINT),
       [entry CLOCK_DOMAIN [''ipxact_clock_port'', ''sdc_clock_name'', ''period_ns'',
                            ''uncertainty_setup'', ''uncertainty_hold'']
          ''Each IP-XACT clock port must map to a create_clock command'' False,
        entry IO_TIMING [''ipxact_port'', ''sdc_command'', ''clock_domain'', ''max_delay'',
                         ''min_delay'']
          ''Each I/O port must have input/output delay constraints'' False,
        entry FALSE_PATH [''ipxact_port_or_domain'', ''sdc_false_path_spec'']
          ''Async signals (resets, async inputs) must have false paths'' False,
        entry CLOCK_GROUP [''group_name'', ''clock_list'', ''relationship'']
          ''Multiple clocks must define clock groups (async/exclusive)'' True,
        entry MULTICYCLE_PATH [''from_signal'', ''to_signal'', ''multiplier'', ''clock_domain'']
          ''Multicycle paths between slow/fast domains'' True]),
    ((IPXACT_COMPONENT, UPF_POWER),
       [entry POWER_DOMAIN [''ipxact_component'', ''upf_power_domain'', ''supply_net_vdd'',
                            ''supply_net_vss'']
          ''Each component must map to a power domain'' False,
        entry ISOLATION_STRATEGY [''power_domain'', ''isolation_signal'', ''isolation_sense'',
                                  ''isolation_location'']
          ''Isolation cells for domain boundaries'' True,
        entry RETENTION_STRATEGY [''power_domain'', ''retention_signal'', ''retention_registers'']
          ''Retention strategy for power-gated domains'' True,
        entry LEVEL_SHIFTER [''from_domain'', ''to_domain'', ''shifter_type'']
          ''Level shifters between voltage domains'' True]),
    ((IPXACT_COMPONENT, RTL_WRAPPER),
       [entry PORT_NAMING [''ipxact_port'', ''rtl_port'', ''direction'', ''width'']
          ''Every IP-XACT port must map to an RTL port'' False]),
    ((IPXACT_COMPONENT, CDC_CONSTRAINT),
       [entry CDC_CROSSING [''from_clock_domain'', ''to_clock_domain'', ''crossing_type'',
                            ''sync_scheme'']
          ''Each clock domain crossing must be documented'' False]),
    ((IPXACT_COMPONENT, RESET_SCHEME),
       [entry RESET_DOMAIN [''ipxact_reset_port'', ''reset_domain'', ''polarity'', ''sync_async'']
          ''Each reset port maps to a reset domain'' False,
        entry RESET_CONSTRAINT [''reset_domain'', ''associated_clock'', ''deassert_timing'']
          ''Reset deassertion timing relative to clock'' False]),
    ((IPXACT_COMPONENT, REGISTER_MAP),
       [entry REGISTER_BLOCK [''register_name'', ''offset'', ''width'', ''access_type'',
                              ''reset_value'']
          ''Each register in IP-XACT memory map must be mapped'' False,
        entry ADDRESS_SPACE [''address_space_name'', ''base_address'', ''range'',
                             ''bus_interface'']
          ''Address space mapping for each bus interface'' False]),
    ((REGISTER_MAP, UVM_RAL_MODEL),
       [entry REGISTER_BLOCK [''register_name'', ''ral_class_name'', ''access_type'',
                              ''field_list'']
          ''Each register must produce a RAL register class'' False]),
    ((REGISTER_MAP, C_HEADER),
       [entry REGISTER_BLOCK [''register_name'', ''c_define_name'', ''offset_hex'',
                              ''field_masks'']
          ''Each register must produce C #defines'' False]),
    ((IPXACT_COMPONENT, PIN_MAPPING),
       [entry PIN_ASSIGNMENT [''ipxact_port'', ''physical_pin'', ''pad_type'', ''io_standard'']
          ''Each top-level port must map to a physical pin'' False]),
    ((IPXACT_DESIGN, FLOORPLAN_CONSTRAINT),
       [entry HIERARCHY_MAPPING [''instance_name'', ''component_ref'', ''placement_region'',
                                 ''area_estimate'']
          ''Each instance must have placement constraints'' False]),
    ((IPXACT_COMPONENT, RTL_FILELIST),
       [entry FILELIST_ENTRY [''file_path'', ''file_type'', ''compile_order'']
          ''All source files listed with correct compile order'' False]),
    ((IPXACT_COMPONENT, BUS_VIP_CONFIG),
       [entry BUS_INTERFACE [''bus_interface_name'', ''protocol'', ''vip_type'',
                             ''config_params'']
          ''Each bus interface must have VIP configuration'' False]),
    ((FPGA_SOURCE, IPXACT_COMPONENT),
       [entry PORT_NAMING [''customer_port'', ''ipxact_port'', ''direction'', ''width'',
                           ''rename_reason'']
          ''Each customer FPGA port maps to standardised IP-XACT port'' False,
        entry CLOCK_DOMAIN [''customer_clock'', ''ipxact_clock_domain'', ''frequency_mhz'']
          ''Customer clock signals map to IP-XACT clock domains'' False,
        entry RESET_DOMAIN [''customer_reset'', ''ipxact_reset_domain'', ''polarity'']
          ''Customer reset signals map to IP-XACT reset domains'' False]),
    ((SDC_CONSTRAINT, SDC_CONSTRAINT),
       [entry CLOCK_DOMAIN [''source_clock'', ''target_clock_reference'', ''false_path_defined'']
          ''DFT/signoff SDC must reference same clocks as main SDC'' False]),
    ((IPXACT_COMPONENT, MEMORY_MAP),
       [entry MEMORY_MAP_MAPPING [''memory_map_name'', ''address_block'', ''base_address'',
                                  ''range'']
          ''Each IP-XACT memory map must produce decode logic'' False]),
    ((MEMORY_MAP, ADDRESS_DECODE),
       [entry ADDRESS_SPACE [''address_block'', ''decode_select_signal'', ''base_address'',
                             ''range'']
          ''Each address block needs decode logic'' False]),
    ((MEMORY_MAP, LINKER_SCRIPT),
       [entry ADDRESS_SPACE [''memory_region'', ''origin_address'', ''length'',
                             ''access_permissions'']
          ''Each memory region maps to linker MEMORY section'' False]),
    ((IPXACT_ABSTRACTION_DEF, BUS_VIP_CONFIG),
       [entry BUS_INTERFACE [''abstraction_name'', ''protocol_version'', ''port_map_list'',
                             ''vip_parameter_overrides'']
          ''Abstraction definition drives VIP parameterisation'' False]),
    ((IPXACT_ABSTRACTION_DEF, PROTOCOL_CHECKER),
       [entry BUS_INTERFACE [''abstraction_name'', ''checker_rules'', ''port_connections'']
          ''Abstraction drives protocol checker configuration'' False])]"

definition IPXACT_ELEMENT_EXPECTED_OUTPUTS :: "(string \<times> NodeType list) list" where
  "IPXACT_ELEMENT_EXPECTED_OUTPUTS =
   [(''clocks'', [SDC_CONSTRAINT, CDC_CONSTRAINT]),
    (''resets'', [RESET_SCHEME, SDC_CONSTRAINT]),
    (''bus_interfaces'', [BUS_VIP_CONFIG, RTL_WRAPPER]),
    (''memory_maps'', [REGISTER_MAP, UVM_RAL_MODEL, C_HEADER, REGISTER_DOC, ADDRESS_DECODE]),
    (''ports'', [RTL_WRAPPER, RTL_FILELIST, DOCUMENTATION]),
    (''power_domains'', [UPF_POWER]),
    (''top_level_ports'', [PIN_MAPPING])]"

text \<open>\<^verbatim>\<open>d.get(k, [])\<close>.\<close>

definition get_or_empty :: "('k \<times> 'v list) list \<Rightarrow> 'k \<Rightarrow> 'v list" where
  "get_or_empty d k = (case map_of d k of None \<Rightarrow> [] | Some v \<Rightarrow> v)"

section \<open>Validation report (mapping_validator.py)\<close>

definition PASS :: string where "PASS = ''PASS''"
definition WARNING :: string where "WARNING = ''WARNING''"
definition FAIL :: string where "FAIL = ''FAIL''"
definition INFO :: string where "INFO = ''INFO''"

text \<open>A message is an f-string: its literal text and the values interpolated into it, in
  order. The rendering of an interpolated list (Python's \<^verbatim>\<open>repr\<close>) is left to the
  reader of the message.\<close>

datatype piece =
    Lit string
  | Interp string
  | InterpNat nat
  | InterpList "string list"
  | InterpVals "pyval list"

text \<open>The arrow U+2192 of the messages, in UTF-8.\<close>

definition arrow :: string where
  "arrow = [CHR 0x20, CHR 0xE2, CHR 0x86, CHR 0x92, CHR 0x20]"

record ValidationItem =
  severity :: string
  category :: string
  v_node_id :: string
  v_target_id :: string
  mapping_category :: string
  message :: "piece list"
  details :: pydict

record ValidationReport =
  timestamp :: rat
  items :: "ValidationItem list"

definition passes :: "ValidationReport \<Rightarrow> ValidationItem list" where
  "passes r = filter (\<lambda>i. severity i = PASS) (items r)"

definition warnings :: "ValidationReport \<Rightarrow> ValidationItem list" where
  "warnings r = filter (\<lambda>i. severity i = WARNING) (items r)"

definition failures :: "ValidationReport \<Rightarrow> ValidationItem list" where
  "failures r = filter (\<lambda>i. severity i = FAIL) (items r)"

definition is_valid :: "ValidationReport \<Rightarrow> bool" where
  "is_valid r = (length (failures r) = 0)"

text \<open>Floats. A Python float is a binary64 number; the model holds its exact value as a
  rational. \<open>to_double\<close> is the correctly rounded result of an arithmetic operation whose
  exact result is \<open>q\<close>: the nearest number with a 53-bit significand, a tie going to the
  even significand (the exponent range is not modelled; the quotients rounded here are 0 or
  lie between 100 / total and 100).\<close>

fun bit_length :: "nat \<Rightarrow> nat" where
  "bit_length n = (if n = 0 then 0 else Suc (bit_length (n div 2)))"

definition round_half_even :: "rat \<Rightarrow> int" where
  "round_half_even q =
     (let f = \<lfloor>q\<rfloor>; r = q - of_int f
      in if r < 1 / 2 then f else if 1 / 2 < r then f + 1 else if even f then f else f + 1)"

text \<open>The exponent \<open>e\<close> with \<open>2^e \<le> q < 2^(e+1)\<close>, for positive \<open>q\<close>.\<close>

definition binade :: "rat \<Rightarrow> int" where
  "binade q =
     (let (a, b) = quotient_of q;
          d = int (bit_length (nat a)) - int (bit_length (nat b))
      in if power_int 2 d \<le> q then d else d - 1)"

definition to_double :: "rat \<Rightarrow> rat" where
  "to_double q =
     (if q = 0 then 0
      else (let ulp = power_int 2 (binade \<bar>q\<bar> - 52)
            in sgn q * of_int (round_half_even (\<bar>q\<bar> / ulp)) * ulp))"

text \<open>\<^verbatim>\<open>round(a / b, 1)\<close> for the exact quotient \<open>x\<close> of \<open>a\<close> by \<open>b\<close>: the division
  rounds to a float, and \<^verbatim>\<open>round\<close> takes the exact value of that float to the nearest
  tenth, a tie going to the even tenth. The result stands for the float nearest to that
  tenth, which prints as it.\<close>

definition py_round1 :: "rat \<Rightarrow> rat" where
  "py_round1 x = of_int (round_half_even (to_double x * 10)) / 10"

definition coverage_pct :: "ValidationReport \<Rightarrow> rat" where
  "coverage_pct r =
     (let total = length (passes r) + length (failures r)
      in if total = 0 then 100
         else py_round1 (100 * of_nat (length (passes r)) / of_nat total))"

text \<open>\<^verbatim>\<open>item.mapping_category or item.category\<close>.\<close>

definition item_cat :: "ValidationItem \<Rightarrow> string" where
  "item_cat i = (if mapping_category i \<noteq> [] then mapping_category i else category i)"

definition cat_stats :: "ValidationItem list \<Rightarrow> (string \<times> nat \<times> nat) list" where
  "cat_stats its =
     foldl (\<lambda>st i.
        if severity i = PASS \<or> severity i = FAIL then
          (let cat = item_cat i;
               st1 = (if has_key cat st then st else st @ [(cat, (0, 0))]);
               (p, f) = (case map_of st1 cat of Some pf \<Rightarrow> pf | None \<Rightarrow> (0, 0))
           in if severity i = PASS then AList.update cat (p + 1, f) st1
              else AList.update cat (p, f + 1) st1)
        else st) [] its"

record Summary =
  s_timestamp :: rat
  overall_valid :: bool
  overall_coverage_pct :: rat
  total_checks :: nat
  n_passes :: nat
  n_warnings :: nat
  n_failures :: nat
  category_coverage :: "(string \<times> nat \<times> nat \<times> rat) list"
  failure_details :: "(string \<times> string \<times> string \<times> piece list) list"

definition summary :: "ValidationReport \<Rightarrow> Summary" where
  "summary r =
     \<lparr>s_timestamp = timestamp r,
      overall_valid = is_valid r,
      overall_coverage_pct = coverage_pct r,
      total_checks = length (items r),
      n_passes = length (passes r),
      n_warnings = length (warnings r),
      n_failures = length (failures r),
      category_coverage =
        map (\<lambda>(cat, (p, f)).
               (cat, p, f, if 0 < p + f then py_round1 (100 * of_nat p / of_nat (p + f)) else 100))
            (cat_stats (items r)),
      failure_details =
        map (\<lambda>f. (v_node_id f, v_target_id f, item_cat f, message f)) (failures r)\<rparr>"

section \<open>Mapping validator (mapping_validator.py)\<close>

definition item :: "string \<Rightarrow> string \<Rightarrow> string \<Rightarrow> string \<Rightarrow> string \<Rightarrow> piece list \<Rightarrow> pydict
                    \<Rightarrow> ValidationItem" where
  "item sev cat nid tid mcat msg det =
     \<lparr>severity = sev, category = cat, v_node_id = nid, v_target_id = tid,
      mapping_category = mcat, message = msg, details = det\<rparr>"

definition strs :: "string list \<Rightarrow> pyval" where
  "strs xs = PList (map PStr xs)"

subsection \<open>Level 1\<close>

text \<open>The body of the loop over the kinds expected for one element category.\<close>

definition level1_check ::
  "NodeType list \<Rightarrow> string \<Rightarrow> ArtifactNode \<Rightarrow> string \<Rightarrow> string list \<Rightarrow> NodeType
   \<Rightarrow> ValidationItem list" where
  "level1_check target_types nid node element_key element_values expected_type =
     (if expected_type = CDC_CONSTRAINT \<and> element_key = ''clocks'' \<and> length element_values \<le> 1
      then []
      else if expected_type \<in> set target_types
      then [item PASS ''structural'' nid [] element_key
              [Lit ''Edge exists: '', Interp (name node), Lit arrow,
               Interp (NodeType_value expected_type)] []]
      else [item FAIL ''structural'' nid [] element_key
              [Lit ''MISSING EDGE: '', Interp (quoted (name node)), Lit '' defines '',
               Interp element_key, Lit '' ('', InterpList element_values,
               Lit '') but has NO edge to any '', Interp (NodeType_value expected_type),
               Lit '' node. This mapping must be established to prevent downstream errors.'']
              [(''element_key'', PStr element_key),
               (''element_values'', strs element_values),
               (''expected_target_type'', PStr (NodeType_value expected_type))]])"

text \<open>The kinds of the nodes the outgoing edges of a node lead to
  (\<^verbatim>\<open>target_types\<close> of the structural pass).\<close>

definition outgoing_target_types :: "GraphManager \<Rightarrow> string \<Rightarrow> NodeType list" where
  "outgoing_target_types gm nid =
     List.map_filter (\<lambda>e. map_option node_type (map_of (gm_nodes gm) (target_id e)))
       (get_edges_from nid gm)"

definition level1_node :: "GraphManager \<Rightarrow> string \<times> ArtifactNode \<Rightarrow> ValidationItem list" where
  "level1_node gm = (\<lambda>(nid, node).
     if node_type node \<noteq> IPXACT_COMPONENT \<and> node_type node \<noteq> IPXACT_DESIGN then []
     else if defined_elements node = [] then
       [item WARNING ''structural'' nid [] []
          [Lit ''IP-XACT node '', Interp (quoted (name node)),
           Lit '' has no defined_elements. Cannot validate structural completeness. Populate defined_elements dict with clocks, resets, bus_interfaces, memory_maps, ports, power_domains.'']
          []]
     else
       (let target_types = outgoing_target_types gm nid
        in concat (map (\<lambda>(element_key, element_values).
             if element_values = [] then []
             else concat (map (level1_check target_types nid node element_key element_values)
                            (get_or_empty IPXACT_ELEMENT_EXPECTED_OUTPUTS element_key)))
             (defined_elements node))))"

definition level1_structural :: "GraphManager \<Rightarrow> ValidationItem list" where
  "level1_structural gm = concat (map (level1_node gm) (gm_nodes gm))"

subsection \<open>Level 2\<close>

definition md_get :: "pydict \<Rightarrow> string \<Rightarrow> pyval" where
  "md_get md k = (case map_of md k of None \<Rightarrow> PNone | Some v \<Rightarrow> v)"

text \<open>\<^verbatim>\<open>f not in entry or entry[f] is None or entry[f] == ""\<close>.\<close>

definition field_missing :: "pydict \<Rightarrow> string \<Rightarrow> bool" where
  "field_missing e f =
     (case map_of e f of None \<Rightarrow> True | Some PNone \<Rightarrow> True | Some (PStr s) \<Rightarrow> s = []
      | Some _ \<Rightarrow> False)"

text \<open>A list is not hashable: adding one to a set raises TypeError.\<close>

fun unhashable :: "pyval \<Rightarrow> bool" where
  "unhashable (PList xs) = True"
| "unhashable _ = False"

definition level2_entry ::
  "DependencyEdge \<Rightarrow> ArtifactNode \<Rightarrow> ArtifactNode \<Rightarrow> schema \<Rightarrow> nat \<times> pydict \<Rightarrow> ValidationItem" where
  "level2_entry edge src tgt sc = (\<lambda>(idx, e).
     (let cat = s_category sc;
          missing_fields = filter (field_missing e) (required_fields sc)
      in if missing_fields \<noteq> [] then
           item FAIL ''field_level'' (source_id edge) (target_id edge) cat
             [Lit ''INCOMPLETE MAPPING: '', Interp (quoted cat), Lit '' entry #'', InterpNat idx,
              Lit '' in '', Interp (name src), Lit arrow, Interp (name tgt),
              Lit '' is missing fields: '', InterpList missing_fields]
             [(''entry_index'', PNum (of_nat idx)),
              (''missing_fields'', strs missing_fields),
              (''present_fields'', strs (map fst e))]
         else
           item PASS ''field_level'' (source_id edge) (target_id edge) cat
             [Lit ''Mapping complete: '', Interp (quoted cat), Lit '' entry #'', InterpNat idx,
              Lit '' in '', Interp (name src), Lit arrow, Interp (name tgt)] []))"

definition level2_schema ::
  "DependencyEdge \<Rightarrow> ArtifactNode \<Rightarrow> ArtifactNode \<Rightarrow> schema \<Rightarrow> ValidationItem list" where
  "level2_schema edge src tgt sc =
     (let cat = s_category sc;
          matching_entries = filter (\<lambda>md. md_get md ''category'' = PStr cat) (mapping_details edge)
      in if matching_entries = [] then
           (if conditional sc then
              [item WARNING ''field_level'' (source_id edge) (target_id edge) cat
                 [Lit ''Conditional mapping '', Interp (quoted cat), Lit '' not present in '',
                  Interp (name src), Lit arrow, Interp (name tgt),
                  Lit ''. Verify this is intentionally omitted. ('', Interp (s_description sc),
                  Lit '')''] []]
            else
              [item FAIL ''field_level'' (source_id edge) (target_id edge) cat
                 [Lit ''MISSING MAPPING CATEGORY: '', Interp (quoted cat),
                  Lit '' not found in mapping_details for '', Interp (name src), Lit arrow,
                  Interp (name tgt), Lit ''. Required fields: '',
                  InterpList (required_fields sc), Lit ''. ('', Interp (s_description sc),
                  Lit '')'']
                 [(''required_fields'', strs (required_fields sc))]])
         else map (level2_entry edge src tgt sc) (enumerate 0 matching_entries))"

definition level2_edge :: "GraphManager \<Rightarrow> DependencyEdge \<Rightarrow> error + ValidationItem list" where
  "level2_edge gm edge =
     (case (map_of (gm_nodes gm) (source_id edge), map_of (gm_nodes gm) (target_id edge)) of
        (Some src, Some tgt) \<Rightarrow>
          (let schemas = get_or_empty EXPECTED_MAPPING_FIELDS (node_type src, node_type tgt)
           in if schemas = [] then
                Inr [item INFO ''field_level'' (source_id edge) (target_id edge) []
                       [Lit ''No mapping schema defined for '',
                        Interp (NodeType_value (node_type src)), Lit arrow,
                        Interp (NodeType_value (node_type tgt)),
                        Lit ''. Consider adding one to EXPECTED_MAPPING_FIELDS.''] []]
              else if \<exists>md \<in> set (mapping_details edge).
                        truthy (md_get md ''category'') \<and> unhashable (md_get md ''category'')
              then Inl (TypeError ''unhashable type'')
              else Inr (concat (map (level2_schema edge src tgt) schemas)))
      | _ \<Rightarrow> Inr [])"

text \<open>Running the edges in order; the first exception ends the pass.\<close>

fun collect :: "('a \<Rightarrow> error + 'b list) \<Rightarrow> 'a list \<Rightarrow> error + 'b list" where
  "collect f [] = Inr []"
| "collect f (x # xs) =
     (case f x of
        Inl err \<Rightarrow> Inl err
      | Inr ys \<Rightarrow> (case collect f xs of Inl err \<Rightarrow> Inl err | Inr zs \<Rightarrow> Inr (ys @ zs)))"

definition level2_field_completeness :: "GraphManager \<Rightarrow> error + ValidationItem list" where
  "level2_field_completeness gm = collect (level2_edge gm) (map snd (gm_edges gm))"

subsection \<open>Level 3\<close>

record coverage_check =
  element_key :: string
  c_mapping_category :: string
  element_field_in_mapping :: string
  target_types :: "NodeType list"

definition COVERAGE_CHECKS :: "coverage_check list" where
  "COVERAGE_CHECKS =
   [\<lparr>element_key = ''ports'', c_mapping_category = MappingCategory_value PORT_NAMING,
     element_field_in_mapping = ''ipxact_port'', target_types = [RTL_WRAPPER]\<rparr>,
    \<lparr>element_key = ''clocks'', c_mapping_category = MappingCategory_value CLOCK_DOMAIN,
     element_field_in_mapping = ''ipxact_clock_port'', target_types = [SDC_CONSTRAINT]\<rparr>,
    \<lparr>element_key = ''resets'', c_mapping_category = MappingCategory_value RESET_DOMAIN,
     element_field_in_mapping = ''ipxact_reset_port'', target_types = [RESET_SCHEME]\<rparr>,
    \<lparr>element_key = ''bus_interfaces'', c_mapping_category = MappingCategory_value BUS_INTERFACE,
     element_field_in_mapping = ''bus_interface_name'', target_types = [BUS_VIP_CONFIG]\<rparr>,
    \<lparr>element_key = ''memory_maps'', c_mapping_category = MappingCategory_value MEMORY_MAP_MAPPING,
     element_field_in_mapping = ''memory_map_name'', target_types = [MEMORY_MAP, REGISTER_MAP]\<rparr>,
    \<lparr>element_key = ''power_domains'', c_mapping_category = MappingCategory_value POWER_DOMAIN,
     element_field_in_mapping = ''upf_power_domain'', target_types = [UPF_POWER]\<rparr>]"

text \<open>\<^verbatim>\<open>sorted\<close> on a set of values: strings sort among themselves, numbers among
  themselves, and comparing a string with a number raises TypeError.\<close>

definition the_strs :: "pyval list \<Rightarrow> string list" where
  "the_strs vs = List.map_filter (\<lambda>v. case v of PStr s \<Rightarrow> Some s | _ \<Rightarrow> None) vs"

definition the_nums :: "pyval list \<Rightarrow> rat list" where
  "the_nums vs = List.map_filter (\<lambda>v. case v of PNum q \<Rightarrow> Some q | _ \<Rightarrow> None) vs"

definition sorted_vals :: "pyval list \<Rightarrow> error + pyval list" where
  "sorted_vals vs =
     (if length (the_strs vs) = length vs then Inr (map PStr (sort (the_strs vs)))
      else if length (the_nums vs) = length vs then Inr (map PNum (sort (the_nums vs)))
      else Inl (TypeError ''not supported between instances''))"

text \<open>The values collected into \<^verbatim>\<open>mapped_elements\<close>, in the order they are added.\<close>

definition mapped_values :: "string \<Rightarrow> string \<Rightarrow> DependencyEdge list \<Rightarrow> pyval list" where
  "mapped_values cat id_field relevant_edges =
     filter truthy
       (map (\<lambda>md. md_get md id_field)
          (filter (\<lambda>md. md_get md ''category'' = PStr cat)
             (concat (map mapping_details relevant_edges))))"

text \<open>The outgoing edges that lead to a node of one of the kinds a check expects.\<close>

definition relevant_edges_of ::
  "GraphManager \<Rightarrow> DependencyEdge list \<Rightarrow> coverage_check \<Rightarrow> DependencyEdge list" where
  "relevant_edges_of gm outgoing check =
     filter (\<lambda>e. case map_of (gm_nodes gm) (target_id e) of
                  None \<Rightarrow> False
                | Some t \<Rightarrow> node_type t \<in> set (target_types check)) outgoing"

text \<open>The PASS or FAIL item of one comparison: \<open>defined_set\<close>, \<open>covered\<close> and
  \<open>missing\<close> are the sets of the source, held as duplicate-free lists.\<close>

definition level3_verdict ::
  "string \<Rightarrow> ArtifactNode \<Rightarrow> coverage_check \<Rightarrow> string list \<Rightarrow> string list \<Rightarrow> string list
   \<Rightarrow> ValidationItem" where
  "level3_verdict nid node check defined_set covered missing =
     (let elem_key = element_key check; cat = c_mapping_category check
      in if missing = [] then
           item PASS ''element_coverage'' nid [] cat
             [Lit ''Full coverage: all '', InterpNat (length defined_set), Lit '' '',
              Interp elem_key, Lit '' in '', Interp (quoted (name node)),
              Lit '' have '', Interp (quoted cat), Lit '' mappings'']
             [(''defined'', strs (sort defined_set)),
              (''covered'', strs (sort covered))]
         else
           item FAIL ''element_coverage'' nid [] cat
             [Lit ''INCOMPLETE COVERAGE: '', InterpNat (length missing), Lit ''/'',
              InterpNat (length defined_set), Lit '' '', Interp elem_key,
              Lit '' in '', Interp (quoted (name node)), Lit '' have NO '',
              Interp (quoted cat), Lit '' mapping. Missing: '',
              InterpList (sort missing)]
             [(''defined'', strs (sort defined_set)),
              (''covered'', strs (sort covered)),
              (''missing'', strs (sort missing)),
              (''coverage_pct'',
                 PNum (py_round1 (100 * of_nat (length covered)
                                   / of_nat (length defined_set))))])"

definition level3_check ::
  "GraphManager \<Rightarrow> string \<Rightarrow> ArtifactNode \<Rightarrow> DependencyEdge list \<Rightarrow> coverage_check
   \<Rightarrow> error + ValidationItem list" where
  "level3_check gm nid node outgoing check =
     (let elem_key = element_key check;
          elements = get_or_empty (defined_elements node) elem_key
      in if elements = [] then Inr []
      else
        (let cat = c_mapping_category check;
             id_field = element_field_in_mapping check;
             relevant_edges = relevant_edges_of gm outgoing check
         in if relevant_edges = [] then Inr []
         else
           (let vals = mapped_values cat id_field relevant_edges
            in if \<exists>v \<in> set vals. unhashable v then Inl (TypeError ''unhashable type'')
            else
              (let mapped_elements = remdups vals;
                   defined_set = remdups elements;
                   covered = filter (\<lambda>x. PStr x \<in> set mapped_elements) defined_set;
                   missing = filter (\<lambda>x. PStr x \<notin> set mapped_elements) defined_set;
                   extra = filter (\<lambda>v. v \<notin> PStr ` set defined_set) mapped_elements;
                   verdict = level3_verdict nid node check defined_set covered missing
               in if extra = [] then Inr [verdict]
                  else (case sorted_vals extra of
                          Inl err \<Rightarrow> Inl err
                        | Inr sorted_extra \<Rightarrow>
                            Inr [verdict,
                                 item WARNING ''element_coverage'' nid [] cat
                                   [Lit ''Extra mappings found for '', Interp elem_key,
                                    Lit '' not in defined_elements: '', InterpVals sorted_extra,
                                    Lit ''. Check if defined_elements needs updating.'']
                                   [(''extra'', PList sorted_extra)]])))))"

definition level3_node :: "GraphManager \<Rightarrow> string \<times> ArtifactNode \<Rightarrow> error + ValidationItem list" where
  "level3_node gm = (\<lambda>(nid, node).
     if defined_elements node = [] then Inr []
     else collect (level3_check gm nid node (get_edges_from nid gm)) COVERAGE_CHECKS)"

definition level3_element_coverage :: "GraphManager \<Rightarrow> error + ValidationItem list" where
  "level3_element_coverage gm = collect (level3_node gm) (gm_nodes gm)"

subsection \<open>The validator\<close>

text \<open>\<open>now\<close> is the reading of \<^verbatim>\<open>time.time()\<close> when the report is created.\<close>

definition validate :: "GraphManager \<Rightarrow> rat \<Rightarrow> error + ValidationReport" where
  "validate gm now =
     (let items1 = level1_structural gm
      in case level2_field_completeness gm of
           Inl err \<Rightarrow> Inl err
         | Inr items2 \<Rightarrow>
             (case level3_element_coverage gm of
                Inl err \<Rightarrow> Inl err
              | Inr items3 \<Rightarrow> Inr \<lparr>timestamp = now, items = items1 @ items2 @ items3\<rparr>))"

section \<open>Serialisation (graph_manager.py)\<close>

text \<open>The snapshot is the dictionary \<^verbatim>\<open>data\<close> that \<^verbatim>\<open>save\<close> hands to
  \<^verbatim>\<open>json.dumps\<close> and that \<^verbatim>\<open>load\<close> gets back from \<^verbatim>\<open>json.loads\<close>. All its values
  are JSON values (strings, null, lists and dictionaries of free-form values), which the
  JSON text carries unchanged; enumeration members are stored as their value strings.\<close>

record json_node =
  j_node_id :: string
  j_name :: string
  j_node_type :: string
  j_domain :: string
  j_file_path :: "string option"
  j_description :: string
  j_eda_tool :: string
  j_version :: string
  j_tags :: "string list"
  j_metadata :: pydict

record json_edge =
  j_source_id :: string
  j_target_id :: string
  j_edge_type :: string
  j_label :: string
  j_e_domain :: string
  j_e_metadata :: pydict
  j_mapping_details :: "pydict list"

record snapshot =
  s_nodes :: "json_node list"
  s_edges :: "json_edge list"

definition node_to_json :: "ArtifactNode \<Rightarrow> json_node" where
  "node_to_json n =
     \<lparr>j_node_id = node_id n, j_name = name n, j_node_type = NodeType_value (node_type n),
      j_domain = Domain_value (domain n), j_file_path = file_path n,
      j_description = description n, j_eda_tool = eda_tool n, j_version = version n,
      j_tags = tags n, j_metadata = metadata n\<rparr>"

definition edge_to_json :: "DependencyEdge \<Rightarrow> json_edge" where
  "edge_to_json e =
     \<lparr>j_source_id = source_id e, j_target_id = target_id e,
      j_edge_type = EdgeType_value (edge_type e), j_label = label e,
      j_e_domain = Domain_value (e_domain e), j_e_metadata = e_metadata e,
      j_mapping_details = mapping_details e\<rparr>"

definition snapshot_of :: "GraphManager \<Rightarrow> snapshot" where
  "snapshot_of gm =
     \<lparr>s_nodes = map (\<lambda>(k, n). node_to_json n) (gm_nodes gm),
      s_edges = map (\<lambda>(k, e). edge_to_json e) (gm_edges gm)\<rparr>"

text \<open>The snapshot files on disk, by path.\<close>

type_synonym files = "string \<Rightarrow> snapshot option"

definition save :: "string \<Rightarrow> GraphManager \<Rightarrow> files \<Rightarrow> files" where
  "save path gm fs = fs(path \<mapsto> snapshot_of gm)"

definition node_of_json :: "json_node \<Rightarrow> error + ArtifactNode" where
  "node_of_json nd =
     (case NodeType_of_value (j_node_type nd) of
        None \<Rightarrow> Inl (ValueError (quoted (j_node_type nd) @ '' is not a valid NodeType''))
      | Some nt \<Rightarrow>
         (case Domain_of_value (j_domain nd) of
            None \<Rightarrow> Inl (ValueError (quoted (j_domain nd) @ '' is not a valid Domain''))
          | Some dm \<Rightarrow>
              Inr \<lparr>node_id = j_node_id nd, name = j_name nd, node_type = nt, domain = dm,
                   file_path = j_file_path nd, description = j_description nd,
                   eda_tool = j_eda_tool nd, version = j_version nd, tags = j_tags nd,
                   metadata = j_metadata nd, defined_elements = [], file_hash = None,
                   last_checked = None\<rparr>))"

definition edge_of_json :: "json_edge \<Rightarrow> error + DependencyEdge" where
  "edge_of_json ed =
     (case EdgeType_of_value (j_edge_type ed) of
        None \<Rightarrow> Inl (ValueError (quoted (j_edge_type ed) @ '' is not a valid EdgeType''))
      | Some et \<Rightarrow>
         (case Domain_of_value (j_e_domain ed) of
            None \<Rightarrow> Inl (ValueError (quoted (j_e_domain ed) @ '' is not a valid Domain''))
          | Some dm \<Rightarrow>
              Inr \<lparr>source_id = j_source_id ed, target_id = j_target_id ed, edge_type = et,
                   label = j_label ed, e_domain = dm, e_metadata = j_e_metadata ed,
                   mapping_details = j_mapping_details ed\<rparr>))"

fun load_nodes :: "json_node list \<Rightarrow> GraphManager \<Rightarrow> error + GraphManager" where
  "load_nodes [] gm = Inr gm"
| "load_nodes (nd # nds) gm =
     (case node_of_json nd of
        Inl err \<Rightarrow> Inl err
      | Inr node \<Rightarrow>
          (case add_node node gm of
             (Some err, gm1) \<Rightarrow> Inl err
           | (None, gm1) \<Rightarrow> load_nodes nds gm1))"

fun load_edges :: "json_edge list \<Rightarrow> GraphManager \<Rightarrow> error + GraphManager" where
  "load_edges [] gm = Inr gm"
| "load_edges (ed # eds) gm =
     (case edge_of_json ed of
        Inl err \<Rightarrow> Inl err
      | Inr edge \<Rightarrow>
          (case add_edge edge gm of
             (Some err, gm1) \<Rightarrow> Inl err
           | (None, gm1) \<Rightarrow> load_edges eds gm1))"

definition load_data :: "snapshot \<Rightarrow> error + GraphManager" where
  "load_data data =
     (case load_nodes (s_nodes data) GraphManager_init of
        Inl err \<Rightarrow> Inl err
      | Inr gm \<Rightarrow> load_edges (s_edges data) gm)"

definition load :: "string \<Rightarrow> files \<Rightarrow> error + GraphManager" where
  "load path fs =
     (case fs path of
        None \<Rightarrow> Inl (FileNotFoundError (''Graph file not found: '' @ path))
      | Some data \<Rightarrow> load_data data)"

text \<open>A node as it comes back from a snapshot: the element inventory and the cached hash
  are not persisted.\<close>

definition reloaded :: "ArtifactNode \<Rightarrow> ArtifactNode" where
  "reloaded n = n\<lparr>defined_elements := [], file_hash := None, last_checked := None\<rparr>"

text \<open>The shape of every store built by the operations: each table is a dictionary keyed by
  the id of the entry, and the endpoints of every edge are nodes.\<close>

definition store_wf :: "GraphManager \<Rightarrow> bool" where
  "store_wf gm =
     (distinct (map fst (gm_nodes gm))
      \<and> (\<forall>(k, n) \<in> set (gm_nodes gm). node_id n = k)
      \<and> distinct (map fst (gm_edges gm))
      \<and> (\<forall>(k, e) \<in> set (gm_edges gm).
            edge_id e = k \<and> has_key (source_id e) (gm_nodes gm)
          \<and> has_key (target_id e) (gm_nodes gm)))"

section \<open>Example graphs\<close>

definition ArtifactNode_init :: "string \<Rightarrow> string \<Rightarrow> NodeType \<Rightarrow> Domain \<Rightarrow> ArtifactNode" where
  "ArtifactNode_init nid nm nt dm =
     \<lparr>node_id = nid, name = nm, node_type = nt, domain = dm, file_path = None,
      description = [], eda_tool = [], version = ''1.0'', tags = [], metadata = [],
      defined_elements = [], file_hash = None, last_checked = None\<rparr>"

definition DependencyEdge_init :: "string \<Rightarrow> string \<Rightarrow> EdgeType \<Rightarrow> DependencyEdge" where
  "DependencyEdge_init s t et =
     \<lparr>source_id = s, target_id = t, edge_type = et, label = [], e_domain = GLOBAL,
      e_metadata = [], mapping_details = []\<rparr>"

definition ex_two_nodes :: GraphManager where
  "ex_two_nodes =
     snd (add_node (ArtifactNode_init ''b'' ''B'' SDC_CONSTRAINT FRONTEND)
       (snd (add_node (ArtifactNode_init ''a'' ''A'' IPXACT_COMPONENT FRONTEND) GraphManager_init)))"

definition ex_parallel_edges :: GraphManager where
  "ex_parallel_edges =
     snd (add_edge (DependencyEdge_init ''a'' ''b'' CONSTRAINS)
       (snd (add_edge (DependencyEdge_init ''a'' ''b'' GENERATES) ex_two_nodes)))"

definition ex_warning_only :: ValidationReport where
  "ex_warning_only =
     \<lparr>timestamp = 0,
      items = [item WARNING ''structural'' ''a'' [] [] [] [],
               item INFO ''field_level'' ''a'' ''b'' [] [] []]\<rparr>"

definition ex_clock_domain :: "string \<Rightarrow> string \<Rightarrow> pydict" where
  "ex_clock_domain port clk =
     [(''category'', PStr ''clock_domain''), (''ipxact_clock_port'', PStr port),
      (''sdc_clock_name'', PStr clk), (''period_ns'', PNum 10),
      (''uncertainty_setup'', PNum (1 / 10)), (''uncertainty_hold'', PNum 0)]"

definition ex_io_timing :: pydict where
  "ex_io_timing =
     [(''category'', PStr ''io_timing''), (''ipxact_port'', PStr ''i_data''),
      (''sdc_command'', PStr ''set_input_delay''), (''clock_domain'', PStr ''clk_main''),
      (''max_delay'', PNum 2), (''min_delay'', PNum (1 / 2))]"

definition ex_false_path :: pydict where
  "ex_false_path =
     [(''category'', PStr ''false_path''), (''ipxact_port_or_domain'', PStr ''i_rst_n''),
      (''sdc_false_path_spec'', PStr ''set_false_path -from [get_ports i_rst_n]'')]"

definition ex_scenario_A_edge :: DependencyEdge where
  "ex_scenario_A_edge =
     (DependencyEdge_init ''comp'' ''sdc'' CONSTRAINS)
       \<lparr>mapping_details := [ex_clock_domain ''i_clk'' ''clk_main'',
                            ex_clock_domain ''i_clk_aux'' ''clk_aux'',
                            ex_io_timing, ex_false_path]\<rparr>"

definition ex_comp :: ArtifactNode where
  "ex_comp = (ArtifactNode_init ''comp'' ''aes'' IPXACT_COMPONENT FRONTEND)
               \<lparr>defined_elements := [(''clocks'', [''i_clk'', ''i_clk_aux''])]\<rparr>"

definition ex_sdc :: ArtifactNode where
  "ex_sdc = ArtifactNode_init ''sdc'' ''main.sdc'' SDC_CONSTRAINT FRONTEND"

definition ex_scenario_A :: GraphManager where
  "ex_scenario_A =
     snd (add_edge ex_scenario_A_edge (snd (add_node ex_sdc (snd (add_node ex_comp
            GraphManager_init)))))"





text \<open>The node has an outgoing edge to a node of kind \<open>t\<close>.\<close>

definition has_edge_to_kind :: "GraphManager \<Rightarrow> string \<Rightarrow> NodeType \<Rightarrow> bool" where
  "has_edge_to_kind gm nid t =
     (\<exists>e \<in> set (map snd (gm_edges gm)).
        source_id e = nid \<and> map_option node_type (map_of (gm_nodes gm) (target_id e)) = Some t)"

text \<open>The one pair of the structural pass for which nothing is emitted.\<close>

definition cdc_suppressed :: "string \<Rightarrow> string list \<Rightarrow> NodeType \<Rightarrow> bool" where
  "cdc_suppressed k vs t = (k = ''clocks'' \<and> t = CDC_CONSTRAINT \<and> length vs \<le> 1)"

text \<open>The declared elements of a check on a node, and the values its relevant edges map.\<close>

definition declared_of :: "ArtifactNode \<Rightarrow> coverage_check \<Rightarrow> string list" where
  "declared_of node check = get_or_empty (defined_elements node) (element_key check)"

definition covered_values ::
  "GraphManager \<Rightarrow> DependencyEdge list \<Rightarrow> coverage_check \<Rightarrow> pyval list" where
  "covered_values gm outgoing check =
     mapped_values (c_mapping_category check) (element_field_in_mapping check)
       (relevant_edges_of gm outgoing check)"

definition ex_port_names :: "string list" where
  "ex_port_names = [''p0'', ''p1'', ''p2'', ''p3'', ''p4'', ''p5'', ''p6'', ''p7'', ''p8'', ''p9'']"

definition ex_comp_B :: ArtifactNode where
  "ex_comp_B = (ArtifactNode_init ''comp'' ''aes'' IPXACT_COMPONENT FRONTEND)
                 \<lparr>defined_elements := [(''ports'', ex_port_names)]\<rparr>"

definition ex_port_naming :: pydict where
  "ex_port_naming =
     [(''category'', PStr ''port_naming''), (''ipxact_port'', PStr ''p3''),
      (''rtl_port'', PStr ''p3''), (''direction'', PStr ''in''), (''width'', PNum 1)]"

definition ex_scenario_B_edge :: DependencyEdge where
  "ex_scenario_B_edge =
     (DependencyEdge_init ''comp'' ''wrap'' GENERATES)\<lparr>mapping_details := [ex_port_naming]\<rparr>"

definition ex_scenario_B :: GraphManager where
  "ex_scenario_B =
     snd (add_edge ex_scenario_B_edge
       (snd (add_node (ArtifactNode_init ''wrap'' ''aes_wrapper.sv'' RTL_WRAPPER FRONTEND)
         (snd (add_node ex_comp_B GraphManager_init)))))"

text \<open>The items of a pass that returned, none for a pass that raised.\<close>

definition items_of :: "error + 'a list \<Rightarrow> 'a list" where
  "items_of r = (case r of Inl err \<Rightarrow> [] | Inr xs \<Rightarrow> xs)"

text \<open>In the words of the specification: the edge goes out of the node and its target is a
  node of one of the given kinds.\<close>

definition edge_to_kinds :: "GraphManager \<Rightarrow> string \<Rightarrow> NodeType list \<Rightarrow> DependencyEdge \<Rightarrow> bool" where
  "edge_to_kinds gm nid kinds e =
     (source_id e = nid
      \<and> (case map_of (gm_nodes gm) (target_id e) of
            None \<Rightarrow> False
          | Some t \<Rightarrow> node_type t \<in> set kinds))"

text \<open>In the words of the specification: some outgoing edge of the node leads to one of the
  kinds the check expects.\<close>

definition has_relevant_edge :: "GraphManager \<Rightarrow> string \<Rightarrow> coverage_check \<Rightarrow> bool" where
  "has_relevant_edge gm nid check =
     (\<exists>e \<in> set (map snd (gm_edges gm)). edge_to_kinds gm nid (target_types check) e)"

text \<open>In the words of the specification: the value is in the covered-set of the check, that
  is, it is the identifying-field value of a mapping record tagged with the check's mapping
  category on an outgoing edge of the node to one of the expected kinds (values that are
  None, empty or zero are not collected).\<close>

definition covered_by :: "GraphManager \<Rightarrow> string \<Rightarrow> coverage_check \<Rightarrow> pyval \<Rightarrow> bool" where
  "covered_by gm nid check v =
     (\<exists>e \<in> set (map snd (gm_edges gm)).
        edge_to_kinds gm nid (target_types check) e
        \<and> (\<exists>md \<in> set (mapping_details e).
              md_get md ''category'' = PStr (c_mapping_category check)
            \<and> md_get md (element_field_in_mapping check) = v \<and> truthy v))"

(*PROPERTIES*)
section \<open>Properties of the graph store\<close>

lemma has_key_iff: "has_key k d \<longleftrightarrow> k \<in> fst ` set d"
  by (simp add: has_key_def map_of_eq_None_iff)

lemma foldl_delete_filter:
  "foldl (\<lambda>d k. AList.delete k d) d ks = filter (\<lambda>p. fst p \<notin> set ks) d"
proof (induction ks arbitrary: d)
  case Nil
  show ?case by simp
next
  case (Cons k ks)
  have "foldl (\<lambda>d k. AList.delete k d) d (k # ks) = filter (\<lambda>p. fst p \<notin> set ks) (AList.delete k d)"
    using Cons.IH [of "AList.delete k d"] by simp
  also have "\<dots> = filter (\<lambda>p. fst p \<notin> set (k # ks)) d"
    by (auto simp: AList.delete_eq case_prod_unfold intro: filter_cong)
  finally show ?case .
qed

lemma keys_delete: "fst ` set (AList.delete k d) = fst ` set d - {k}"
  by (induction d) auto

text \<open>The node table and the library graph stay in step under every operation, whether it
  succeeds or raises.\<close>

lemma in_sync_init: "in_sync GraphManager_init"
  by (simp add: in_sync_def GraphManager_init_def nx_empty_def)

lemma in_sync_add_node: "in_sync gm \<Longrightarrow> in_sync (snd (add_node n gm))"
  by (auto simp: in_sync_def add_node_def nx_add_node_def AList.dom_update)

lemma in_sync_update_node: "in_sync gm \<Longrightarrow> in_sync (snd (update_node n gm))"
  by (auto simp: in_sync_def update_node_def nx_add_node_def AList.dom_update Let_def has_key_iff)

lemma in_sync_add_edge: "in_sync gm \<Longrightarrow> in_sync (snd (add_edge e gm))"
  by (auto simp: in_sync_def add_edge_def nx_add_edge_def nx_ensure_node_def Let_def has_key_iff)

lemma in_sync_remove_edge: "in_sync gm \<Longrightarrow> in_sync (snd (remove_edge s t et gm))"
  by (auto simp: in_sync_def remove_edge_def nx_remove_edge_def Let_def split: sum.splits if_splits)

lemma in_sync_remove_node: "in_sync gm \<Longrightarrow> in_sync (snd (remove_node n gm))"
  by (auto simp: in_sync_def remove_node_def nx_remove_node_def Let_def keys_delete
           split: sum.splits if_splits)

text \<open>Claim C5. Adding an edge whose source id or target id is not a node of the graph
  raises KeyError (the store's error for a missing node) and leaves the whole store, node
  table, edge table and adjacency, exactly as it was.\<close>

theorem add_edge_dangling_atomic:
  assumes "\<not> has_key (source_id e) (gm_nodes gm) \<or> \<not> has_key (target_id e) (gm_nodes gm)"
  shows "\<exists>msg. add_edge e gm = (Some (KeyError msg), gm)"
  using assms by (auto simp: add_edge_def)

theorem add_edge_dangling_atomic_witness:
  "\<exists>msg. add_edge (DependencyEdge_init ''a'' ''zz'' GENERATES) ex_two_nodes
           = (Some (KeyError msg), ex_two_nodes)"
proof -
  have h: "\<not> has_key (source_id (DependencyEdge_init ''a'' ''zz'' GENERATES)) (gm_nodes ex_two_nodes)
         \<or> \<not> has_key (target_id (DependencyEdge_init ''a'' ''zz'' GENERATES)) (gm_nodes ex_two_nodes)"
    by code_simp
  show ?thesis by (rule add_edge_dangling_atomic [OF h])
qed

text \<open>Claim C6. Removing a node that is present returns normally, and afterwards the node
  is gone, no edge of the edge table has it as source or target, and the successor and
  predecessor lists of the library graph never mention it (asking for its own neighbours
  fails, the node being unknown).\<close>

theorem remove_node_cascade:
  assumes "has_key nid (gm_nodes gm)" and "in_sync gm"
  shows "fst (remove_node nid gm) = None
       \<and> \<not> has_key nid (gm_nodes (snd (remove_node nid gm)))
       \<and> (\<forall>(eid, e) \<in> set (gm_edges (snd (remove_node nid gm))).
             source_id e \<noteq> nid \<and> target_id e \<noteq> nid)
       \<and> (\<forall>n vs. successors n (snd (remove_node nid gm)) = Inr vs \<longrightarrow> nid \<notin> set vs)
       \<and> (\<forall>n vs. predecessors n (snd (remove_node nid gm)) = Inr vs \<longrightarrow> nid \<notin> set vs)
       \<and> successors nid (snd (remove_node nid gm)) = Inl (NetworkXError nid)
       \<and> predecessors nid (snd (remove_node nid gm)) = Inl (NetworkXError nid)"
proof -
  from assms have k: "has_key nid (g_node (gm_graph gm))"
    by (auto simp: in_sync_def has_key_iff)
  define es where "es = filter (\<lambda>p. fst p \<notin> set (map fst
      (filter (\<lambda>(eid, e). source_id e = nid \<or> target_id e = nid) (gm_edges gm)))) (gm_edges gm)"
  define G where "G = \<lparr>g_node = AList.delete nid (g_node (gm_graph gm)),
      g_adj = filter (\<lambda>((u, v), a). u \<noteq> nid \<and> v \<noteq> nid) (g_adj (gm_graph gm))\<rparr>"
  have r: "remove_node nid gm
        = (None, gm\<lparr>gm_edges := es, gm_graph := G, gm_nodes := AList.delete nid (gm_nodes gm)\<rparr>)"
    using assms(1) k
    by (simp add: remove_node_def Let_def nx_remove_node_def foldl_delete_filter es_def G_def)
  have e: "\<forall>(eid, e) \<in> set es. source_id e \<noteq> nid \<and> target_id e \<noteq> nid"
    unfolding es_def by force
  have nk: "\<not> has_key nid (g_node G)" "\<not> has_key nid (AList.delete nid (gm_nodes gm))"
    by (auto simp: G_def has_key_iff AList.delete_eq)
  have s: "\<forall>n vs. nx_successors n G = Inr vs \<longrightarrow> nid \<notin> set vs"
    by (auto simp: nx_successors_def G_def split: if_splits)
  have p: "\<forall>n vs. nx_predecessors n G = Inr vs \<longrightarrow> nid \<notin> set vs"
    by (auto simp: nx_predecessors_def G_def split: if_splits)
  show ?thesis
    using e nk s p
    by (simp add: r successors_def predecessors_def nx_successors_def nx_predecessors_def)
qed

theorem remove_node_cascade_witness:
  "fst (remove_node ''b'' ex_parallel_edges) = None
   \<and> gm_edges (snd (remove_node ''b'' ex_parallel_edges)) = []
   \<and> successors ''a'' (snd (remove_node ''b'' ex_parallel_edges)) = Inr []"
proof -
  have h1: "has_key ''b'' (gm_nodes ex_parallel_edges)" by code_simp
  have h2: "in_sync ex_parallel_edges"
    unfolding ex_parallel_edges_def ex_two_nodes_def
    by (intro in_sync_add_edge in_sync_add_node in_sync_init)
  have "fst (remove_node ''b'' ex_parallel_edges) = None"
    using remove_node_cascade [OF h1 h2] by simp
  moreover have "gm_edges (snd (remove_node ''b'' ex_parallel_edges)) = []" by code_simp
  moreover have "successors ''a'' (snd (remove_node ''b'' ex_parallel_edges)) = Inr []" by code_simp
  ultimately show ?thesis by simp
qed

text \<open>Claim C9. The claim asks that the successors of a node be exactly the targets of its
  remaining edges. With two edges of different kinds from a to b, removing one of them drops
  the only adjacency entry for the pair: the other edge is still in the edge table, but b is
  no longer a successor of a (and a is no longer a predecessor of b).\<close>

theorem successors_lost_after_remove_parallel_edge:
  "fst (remove_edge ''a'' ''b'' CONSTRAINS ex_parallel_edges) = None
   \<and> map fst (gm_edges (snd (remove_edge ''a'' ''b'' CONSTRAINS ex_parallel_edges)))
       = [''a--generates-->b'']
   \<and> successors ''a'' (snd (remove_edge ''a'' ''b'' CONSTRAINS ex_parallel_edges)) = Inr []
   \<and> predecessors ''b'' (snd (remove_edge ''a'' ''b'' CONSTRAINS ex_parallel_edges)) = Inr []"
  by code_simp

section \<open>Properties of the validation report\<close>

text \<open>Claim C10. A report without PASS and FAIL items has coverage 100.0 and is valid; a
  report is valid exactly when none of its items has severity FAIL, whatever its warnings
  and info items; and the report of the empty graph has no items, coverage 100.0 and is
  valid.\<close>

theorem report_valid_iff_no_fail:
  "(length (passes r) + length (failures r) = 0 \<longrightarrow> coverage_pct r = 100 \<and> is_valid r)
   \<and> (is_valid r \<longleftrightarrow> (\<forall>i \<in> set (items r). severity i \<noteq> ''FAIL''))
   \<and> validate GraphManager_init now = Inr \<lparr>timestamp = now, items = []\<rparr>
   \<and> coverage_pct \<lparr>timestamp = now, items = []\<rparr> = 100
   \<and> is_valid \<lparr>timestamp = now, items = []\<rparr>"
proof -
  have v: "validate GraphManager_init now = Inr \<lparr>timestamp = now, items = []\<rparr>"
    by (simp add: validate_def level1_structural_def level2_field_completeness_def
                  level3_element_coverage_def GraphManager_init_def)
  have a: "is_valid r \<longleftrightarrow> (\<forall>i \<in> set (items r). severity i \<noteq> ''FAIL'')"
    by (auto simp: is_valid_def failures_def FAIL_def filter_empty_conv)
  show ?thesis
    using v a by (simp add: coverage_pct_def is_valid_def passes_def failures_def)
qed

theorem report_valid_iff_no_fail_witness:
  "length (passes ex_warning_only) + length (failures ex_warning_only) = 0
   \<and> coverage_pct ex_warning_only = 100 \<and> is_valid ex_warning_only"
proof -
  have h: "length (passes ex_warning_only) + length (failures ex_warning_only) = 0"
    by code_simp
  show ?thesis using h report_valid_iff_no_fail [of ex_warning_only 0] by blast
qed

text \<open>Claim C2, as stated: two runs of the validator on the same graph give the same
  serialized summary. It fails on the empty graph as soon as the clock has moved between the
  two runs, since the summary carries the time at which the report was created.\<close>

theorem validate_summary_timestamp_counterexample:
  "map_sum id summary (validate GraphManager_init 0)
   \<noteq> map_sum id summary (validate GraphManager_init 1)"
  by code_simp

section \<open>Properties of the field-level pass\<close>










section \<open>Items of a pass, by node and by category\<close>

lemma filter_concat_pick:
  assumes "distinct (map g xs)" and "x \<in> set xs"
    and "\<forall>y \<in> set xs. \<forall>i \<in> set (f y). key i = g y"
  shows "filter (\<lambda>i. key i = g x) (concat (map f xs)) = f x"
  using assms
proof (induction xs)
  case Nil
  then show ?case by simp
next
  case (Cons y ys)
  have all_y: "\<forall>i \<in> set (f y). key i = g y" using Cons.prems(3) by simp
  have all_ys: "\<forall>z \<in> set ys. \<forall>i \<in> set (f z). key i = g z" using Cons.prems(3) by simp
  have dy: "g y \<notin> g ` set ys" and dys: "distinct (map g ys)" using Cons.prems(1) by simp_all
  show ?case
  proof (cases "y = x")
    case True
    have "\<forall>i \<in> set (concat (map f ys)). key i \<noteq> g x"
    proof
      fix i assume "i \<in> set (concat (map f ys))"
      then obtain z where z: "z \<in> set ys" "i \<in> set (f z)" by auto
      from z all_ys have "key i = g z" by blast
      moreover from z(1) dy True have "g z \<noteq> g x" by (metis imageI)
      ultimately show "key i \<noteq> g x" by simp
    qed
    then have rest: "filter (\<lambda>i. key i = g x) (concat (map f ys)) = []"
      by (simp add: filter_empty_conv)
    have "filter (\<lambda>i. key i = g x) (f y) = f y"
      using all_y True by (simp add: filter_id_conv)
    with rest True show ?thesis by simp
  next
    case False
    with Cons.prems(2) have x_in: "x \<in> set ys" by simp
    with dy have "g y \<noteq> g x" by (metis imageI)
    with all_y have "filter (\<lambda>i. key i = g x) (f y) = []"
      by (simp add: filter_empty_conv)
    moreover have "filter (\<lambda>i. key i = g x) (concat (map f ys)) = f x"
      by (rule Cons.IH [OF dys x_in all_ys])
    ultimately show ?thesis by simp
  qed
qed

lemma filter_three: "filter (\<lambda>i. A i \<and> B i \<and> C i) xs = filter C (filter B (filter A xs))"
  by (induction xs) auto

lemma filter_two: "filter (\<lambda>i. A i \<and> B i) xs = filter B (filter A xs)"
  by (induction xs) auto

lemma map_key_replicate:
  "\<forall>i \<in> set ys. key i = c \<Longrightarrow> map key ys = replicate (length ys) c"
  by (induction ys) auto

lemma collect_Inr:
  "collect f xs = Inr ys \<Longrightarrow>
     ys = concat (map (\<lambda>x. items_of (f x)) xs) \<and> (\<forall>x \<in> set xs. \<exists>zs. f x = Inr zs)"
proof (induction xs arbitrary: ys)
  case Nil
  then show ?case by simp
next
  case (Cons x xs)
  from Cons.prems obtain a b where a: "f x = Inr a" and b: "collect f xs = Inr b"
    and ys: "ys = a @ b"
    by (auto split: sum.splits)
  from Cons.IH [OF b] a ys show ?case by (simp add: items_of_def)
qed

lemma collect_Inl: "collect f xs = Inl err \<Longrightarrow> \<exists>x \<in> set xs. f x = Inl err"
  by (induction xs) (auto split: sum.splits)

section \<open>Properties of the structural pass\<close>

lemma outgoing_target_types_iff:
  "t \<in> set (outgoing_target_types gm nid) \<longleftrightarrow> has_edge_to_kind gm nid t"
proof -
  have "y \<in> set (List.map_filter f xs) \<longleftrightarrow> (\<exists>x \<in> set xs. f x = Some y)"
    for y :: NodeType and f :: "DependencyEdge \<Rightarrow> NodeType option" and xs
    by (induction xs) (auto simp: List.map_filter_simps split: option.splits)
  then show ?thesis
    by (auto simp: outgoing_target_types_def has_edge_to_kind_def get_edges_from_def)
qed

lemma level1_check_suppressed:
  "cdc_suppressed k vs t \<Longrightarrow> level1_check tts nid node k vs t = []"
  by (simp add: level1_check_def cdc_suppressed_def)

lemma level1_check_single:
  assumes "\<not> cdc_suppressed k vs t"
  shows "\<exists>i. level1_check (outgoing_target_types gm nid) nid node k vs t = [i]
           \<and> category i = ''structural'' \<and> v_node_id i = nid \<and> mapping_category i = k
           \<and> (severity i = ''PASS'' \<longleftrightarrow> has_edge_to_kind gm nid t)
           \<and> (severity i = ''FAIL'' \<longleftrightarrow> \<not> has_edge_to_kind gm nid t)
           \<and> (\<not> has_edge_to_kind gm nid t \<longrightarrow>
                 Interp (NodeType_value t) \<in> set (message i)
               \<and> InterpList vs \<in> set (message i)
               \<and> map_of (details i) ''expected_target_type'' = Some (PStr (NodeType_value t))
               \<and> map_of (details i) ''element_values'' = Some (strs vs))"
proof (cases "has_edge_to_kind gm nid t")
  case True
  then have "t \<in> set (outgoing_target_types gm nid)"
    by (simp add: outgoing_target_types_iff)
  with assms True show ?thesis
    by (simp add: level1_check_def cdc_suppressed_def item_def PASS_def)
next
  case False
  then have "t \<notin> set (outgoing_target_types gm nid)"
    by (simp add: outgoing_target_types_iff)
  with assms False show ?thesis
    by (simp add: level1_check_def cdc_suppressed_def item_def FAIL_def)
qed

lemma level1_check_length:
  "length (level1_check tts nid node k vs t) = (if cdc_suppressed k vs t then 0 else 1)"
  by (simp add: level1_check_def cdc_suppressed_def)

lemma level1_checks_length:
  "length (concat (map (level1_check tts nid node k vs) ts))
   = length (filter (\<lambda>t. \<not> cdc_suppressed k vs t) ts)"
  by (induction ts) (simp_all add: level1_check_length)

lemma level1_node_validated:
  assumes "node_type node = IPXACT_COMPONENT \<or> node_type node = IPXACT_DESIGN"
    and "defined_elements node \<noteq> []"
  shows "level1_node gm (nid, node)
     = concat (map (\<lambda>(k, vs).
          concat (map (level1_check (outgoing_target_types gm nid) nid node k vs)
                    (get_or_empty IPXACT_ELEMENT_EXPECTED_OUTPUTS k)))
        (filter (\<lambda>(k, vs). vs \<noteq> []) (defined_elements node)))"
proof -
  have "concat (map (\<lambda>(k, vs). if vs = [] then [] else f k vs) xs)
      = concat (map (\<lambda>(k, vs). f k vs) (filter (\<lambda>(k, vs). vs \<noteq> []) xs))"
    for f :: "string \<Rightarrow> string list \<Rightarrow> ValidationItem list" and xs
    by (induction xs) auto
  with assms show ?thesis
    by (auto simp: level1_node_def Let_def)
qed


lemma level1_check_keys:
  "i \<in> set (level1_check tts nid node k vs t) \<Longrightarrow>
     v_node_id i = nid \<and> mapping_category i = k \<and> category i = ''structural''"
  by (auto simp: level1_check_def item_def split: if_splits)

lemma level1_node_keys:
  assumes "i \<in> set (level1_node gm (nid, node))"
  shows "v_node_id i = nid \<and> category i = ''structural''"
proof (cases "(node_type node = IPXACT_COMPONENT \<or> node_type node = IPXACT_DESIGN)
              \<and> defined_elements node \<noteq> []")
  case True
  then have "level1_node gm (nid, node)
     = concat (map (\<lambda>(k, vs).
          concat (map (level1_check (outgoing_target_types gm nid) nid node k vs)
                    (get_or_empty IPXACT_ELEMENT_EXPECTED_OUTPUTS k)))
        (filter (\<lambda>(k, vs). vs \<noteq> []) (defined_elements node)))"
    by (simp add: level1_node_validated)
  with assms obtain k vs t
    where "i \<in> set (level1_check (outgoing_target_types gm nid) nid node k vs t)"
    by auto
  then show ?thesis using level1_check_keys by blast
next
  case False
  with assms show ?thesis
    by (auto simp: level1_node_def item_def split: if_splits)
qed

lemma level1_structural_by_node:
  assumes "distinct (map fst (gm_nodes gm))" and "(nid, node) \<in> set (gm_nodes gm)"
  shows "filter (\<lambda>i. v_node_id i = nid) (level1_structural gm) = level1_node gm (nid, node)"
proof -
  have k: "\<forall>y \<in> set (gm_nodes gm). \<forall>i \<in> set (level1_node gm y). v_node_id i = fst y"
    using level1_node_keys by (metis prod.collapse)
  from filter_concat_pick [OF assms(1) assms(2) k]
  show ?thesis by (simp add: level1_structural_def)
qed

text \<open>Claim C7. Take a store whose node table is a dictionary, a validated node of it (an
  IP-XACT component or design with a non-empty element inventory, itself a dictionary) and a
  non-empty element category of the node. The items of the structural pass for that node
  and category are, in the order of the kinds expected for the category, the items of each
  (category, expected kind) pair: no item when the category is clocks, the kind is the
  CDC-constraint kind and at most one clock is declared; otherwise exactly one item, PASS
  when the node has an outgoing edge to a node of that kind and FAIL when it has none, the
  FAIL message and details naming the missing kind and the declared element values. So
  their number is the number of expected kinds that are not suppressed.\<close>

theorem level1_one_item_per_pair:
  assumes "distinct (map fst (gm_nodes gm))" and "(nid, node) \<in> set (gm_nodes gm)"
    and "node_type node = IPXACT_COMPONENT \<or> node_type node = IPXACT_DESIGN"
    and "distinct (map fst (defined_elements node))"
    and "(k, vs) \<in> set (defined_elements node)" and "vs \<noteq> []"
  shows "\<exists>f.
      filter (\<lambda>i. v_node_id i = nid \<and> mapping_category i = k) (level1_structural gm)
        = concat (map f (get_or_empty IPXACT_ELEMENT_EXPECTED_OUTPUTS k))
    \<and> length (filter (\<lambda>i. v_node_id i = nid \<and> mapping_category i = k) (level1_structural gm))
        = length (filter (\<lambda>t. \<not> cdc_suppressed k vs t)
                    (get_or_empty IPXACT_ELEMENT_EXPECTED_OUTPUTS k))
    \<and> (\<forall>t. (cdc_suppressed k vs t \<longrightarrow> f t = [])
           \<and> (\<not> cdc_suppressed k vs t \<longrightarrow>
                (\<exists>i. f t = [i]
                   \<and> category i = ''structural'' \<and> v_node_id i = nid \<and> mapping_category i = k
                   \<and> (severity i = ''PASS'' \<longleftrightarrow> has_edge_to_kind gm nid t)
                   \<and> (severity i = ''FAIL'' \<longleftrightarrow> \<not> has_edge_to_kind gm nid t)
                   \<and> (\<not> has_edge_to_kind gm nid t \<longrightarrow>
                         Interp (NodeType_value t) \<in> set (message i)
                       \<and> InterpList vs \<in> set (message i)
                       \<and> map_of (details i) ''expected_target_type''
                           = Some (PStr (NodeType_value t))
                       \<and> map_of (details i) ''element_values'' = Some (strs vs)))))"
proof -
  let ?tts = "outgoing_target_types gm nid"
  let ?F = "\<lambda>(k, vs). concat (map (level1_check ?tts nid node k vs)
                               (get_or_empty IPXACT_ELEMENT_EXPECTED_OUTPUTS k))"
  let ?elems = "filter (\<lambda>(k, vs). vs \<noteq> []) (defined_elements node)"
  have ne: "defined_elements node \<noteq> []" using assms(5) by auto
  have n: "level1_node gm (nid, node) = concat (map ?F ?elems)"
    by (rule level1_node_validated [OF assms(3) ne])
  have d: "distinct (map fst ?elems)" using assms(4) by (rule distinct_map_filter)
  have m: "(k, vs) \<in> set ?elems" using assms(5,6) by simp
  have keys: "\<forall>y \<in> set ?elems. \<forall>i \<in> set (?F y). mapping_category i = fst y"
  proof (intro ballI)
    fix y i assume "y \<in> set ?elems" and i: "i \<in> set (?F y)"
    obtain k' vs' where y: "y = (k', vs')" by (cases y)
    from i y obtain t where "i \<in> set (level1_check ?tts nid node k' vs' t)" by auto
    then show "mapping_category i = fst y" using level1_check_keys y by fastforce
  qed
  have "filter (\<lambda>i. mapping_category i = fst (k, vs)) (concat (map ?F ?elems)) = ?F (k, vs)"
    by (rule filter_concat_pick [OF d m keys])
  then have c: "filter (\<lambda>i. mapping_category i = k) (level1_node gm (nid, node))
                = concat (map (level1_check ?tts nid node k vs) (get_or_empty IPXACT_ELEMENT_EXPECTED_OUTPUTS k))"
    by (simp add: n)
  have eq: "filter (\<lambda>i. v_node_id i = nid \<and> mapping_category i = k) (level1_structural gm)
            = concat (map (level1_check ?tts nid node k vs) (get_or_empty IPXACT_ELEMENT_EXPECTED_OUTPUTS k))"
    unfolding filter_two level1_structural_by_node [OF assms(1,2)] by (rule c)
  have len: "length (filter (\<lambda>i. v_node_id i = nid \<and> mapping_category i = k) (level1_structural gm))
        = length (filter (\<lambda>t. \<not> cdc_suppressed k vs t)
                    (get_or_empty IPXACT_ELEMENT_EXPECTED_OUTPUTS k))"
    unfolding eq by (rule level1_checks_length)
  have per: "\<forall>t. (cdc_suppressed k vs t \<longrightarrow> level1_check ?tts nid node k vs t = [])
           \<and> (\<not> cdc_suppressed k vs t \<longrightarrow>
                (\<exists>i. level1_check ?tts nid node k vs t = [i]
                   \<and> category i = ''structural'' \<and> v_node_id i = nid \<and> mapping_category i = k
                   \<and> (severity i = ''PASS'' \<longleftrightarrow> has_edge_to_kind gm nid t)
                   \<and> (severity i = ''FAIL'' \<longleftrightarrow> \<not> has_edge_to_kind gm nid t)
                   \<and> (\<not> has_edge_to_kind gm nid t \<longrightarrow>
                         Interp (NodeType_value t) \<in> set (message i)
                       \<and> InterpList vs \<in> set (message i)
                       \<and> map_of (details i) ''expected_target_type''
                           = Some (PStr (NodeType_value t))
                       \<and> map_of (details i) ''element_values'' = Some (strs vs))))"
    using level1_check_suppressed level1_check_single by blast
  show ?thesis
    by (rule exI [of _ "level1_check ?tts nid node k vs"]) (rule conjI [OF eq conjI [OF len per]])
qed

theorem level1_one_item_per_pair_witness:
  "length (filter (\<lambda>i. v_node_id i = ''comp'' \<and> mapping_category i = ''clocks'')
             (level1_structural ex_scenario_A)) = 2
   \<and> map severity (level1_structural ex_scenario_A) = [''PASS'', ''FAIL'']"
proof -
  have h1: "distinct (map fst (gm_nodes ex_scenario_A))" by code_simp
  have h2: "(''comp'', ex_comp) \<in> set (gm_nodes ex_scenario_A)" by code_simp
  have h3: "node_type ex_comp = IPXACT_COMPONENT \<or> node_type ex_comp = IPXACT_DESIGN"
    by code_simp
  have h4: "distinct (map fst (defined_elements ex_comp))" by code_simp
  have h5: "(''clocks'', [''i_clk'', ''i_clk_aux'']) \<in> set (defined_elements ex_comp)"
    by code_simp
  have h6: "[''i_clk'', ''i_clk_aux''] \<noteq> []" by simp
  from level1_one_item_per_pair [OF h1 h2 h3 h4 h5 h6]
  have "length (filter (\<lambda>i. v_node_id i = ''comp'' \<and> mapping_category i = ''clocks'')
             (level1_structural ex_scenario_A))
        = length (filter (\<lambda>t. \<not> cdc_suppressed ''clocks'' [''i_clk'', ''i_clk_aux''] t)
                    (get_or_empty IPXACT_ELEMENT_EXPECTED_OUTPUTS ''clocks''))"
    by (elim exE conjE)
  also have "\<dots> = 2" by code_simp
  finally have a: "length (filter (\<lambda>i. v_node_id i = ''comp'' \<and> mapping_category i = ''clocks'')
             (level1_structural ex_scenario_A)) = 2" .
  have b: "map severity (level1_structural ex_scenario_A) = [''PASS'', ''FAIL'']" by code_simp
  from a b show ?thesis by (rule conjI)
qed

section \<open>Properties of the coverage pass\<close>

lemma length_filter_remdups:
  "length (filter P (remdups xs)) = card {x \<in> set xs. P x}"
proof -
  have "distinct (filter P (remdups xs))" by simp
  then have "length (filter P (remdups xs)) = card (set (filter P (remdups xs)))"
    by (simp only: distinct_card)
  then show ?thesis by simp
qed

lemma level3_check_shape:
  assumes "level3_check gm nid node outgoing check = Inr its"
    and "declared_of node check \<noteq> []"
    and "relevant_edges_of gm outgoing check \<noteq> []"
  shows "\<exists>v. v = level3_verdict nid node check (remdups (declared_of node check))
                 (filter (\<lambda>x. PStr x \<in> set (covered_values gm outgoing check))
                    (remdups (declared_of node check)))
                 (filter (\<lambda>x. PStr x \<notin> set (covered_values gm outgoing check))
                    (remdups (declared_of node check)))
            \<and> (its = [v] \<or> (\<exists>w. its = [v, w] \<and> severity w = ''WARNING''))"
  using assms
  by (auto simp: level3_check_def Let_def declared_of_def covered_values_def item_def WARNING_def
           split: if_splits sum.splits)


lemma level3_verdict_fail:
  assumes "missing \<noteq> []"
  shows "severity (level3_verdict nid node check defined_set covered missing) = ''FAIL''"
    and "category (level3_verdict nid node check defined_set covered missing) = ''element_coverage''"
    and "v_node_id (level3_verdict nid node check defined_set covered missing) = nid"
    and "mapping_category (level3_verdict nid node check defined_set covered missing)
         = c_mapping_category check"
    and "map_of (details (level3_verdict nid node check defined_set covered missing)) ''missing''
         = Some (strs (sort missing))"
    and "map_of (details (level3_verdict nid node check defined_set covered missing)) ''coverage_pct''
         = Some (PNum (py_round1 (100 * of_nat (length covered) / of_nat (length defined_set))))"
    and "InterpList (sort missing)
         \<in> set (message (level3_verdict nid node check defined_set covered missing))"
    and "InterpNat (length missing)
         \<in> set (message (level3_verdict nid node check defined_set covered missing))"
    and "InterpNat (length defined_set)
         \<in> set (message (level3_verdict nid node check defined_set covered missing))"
  using assms by (simp_all add: level3_verdict_def Let_def item_def FAIL_def)

lemma level3_general:
  assumes ok: "level3_check gm nid node outgoing check = Inr its"
    and rel: "relevant_edges_of gm outgoing check \<noteq> []"
    and absent: "\<exists>x \<in> set (declared_of node check).
                   PStr x \<notin> set (covered_values gm outgoing check)"
  shows "\<exists>i missing.
           filter (\<lambda>i. severity i = ''FAIL'') its = [i]
         \<and> v_node_id i = nid \<and> mapping_category i = c_mapping_category check
         \<and> map_of (details i) ''missing'' = Some (strs missing)
         \<and> InterpList missing \<in> set (message i)
         \<and> sorted missing \<and> distinct missing
         \<and> set missing = {x \<in> set (declared_of node check).
                             PStr x \<notin> set (covered_values gm outgoing check)}
         \<and> map_of (details i) ''coverage_pct''
             = Some (PNum (py_round1
                 (100 * of_nat (card {x \<in> set (declared_of node check).
                                        PStr x \<in> set (covered_values gm outgoing check)})
                  / of_nat (card (set (declared_of node check))))))"
proof -
  let ?D = "remdups (declared_of node check)"
  let ?C = "filter (\<lambda>x. PStr x \<in> set (covered_values gm outgoing check)) ?D"
  let ?M = "filter (\<lambda>x. PStr x \<notin> set (covered_values gm outgoing check)) ?D"
  let ?v = "level3_verdict nid node check ?D ?C ?M"
  from absent have ne: "declared_of node check \<noteq> []" by auto
  from absent have m: "?M \<noteq> []" by (auto simp: filter_empty_conv)
  from level3_check_shape [OF ok ne rel]
  have shape: "its = [?v] \<or> (\<exists>w. its = [?v, w] \<and> severity w = ''WARNING'')" by simp
  note v = level3_verdict_fail [OF m, where nid = nid and node = node and check = check
      and defined_set = ?D and covered = ?C]
  have f: "filter (\<lambda>i. severity i = ''FAIL'') its = [?v]"
    using shape v(1) by auto
  have lc: "length ?C = card {x \<in> set (declared_of node check).
                               PStr x \<in> set (covered_values gm outgoing check)}"
    by (rule length_filter_remdups)
  have ld: "length ?D = card (set (declared_of node check))"
    by (simp add: length_remdups_card_conv)
  have s: "sorted (sort ?M)" "distinct (sort ?M)"
      "set (sort ?M) = {x \<in> set (declared_of node check).
                          PStr x \<notin> set (covered_values gm outgoing check)}"
    by auto
  show ?thesis
    apply (rule exI [of _ ?v])
    apply (rule exI [of _ "sort ?M"])
    apply (intro conjI)
            apply (rule f)
           apply (rule v(3))
          apply (rule v(4))
         apply (rule v(5))
        apply (rule v(7))
       apply (rule s(1))
      apply (rule s(2))
     apply (rule s(3))
    apply (simp only: v(6) lc ld)
    done
qed

lemma COVERAGE_CHECKS_ports:
  "COVERAGE_CHECKS ! 0 = \<lparr>element_key = ''ports'', c_mapping_category = ''port_naming'',
     element_field_in_mapping = ''ipxact_port'', target_types = [RTL_WRAPPER]\<rparr>"
  by (simp add: COVERAGE_CHECKS_def)

lemma py_round1_ten: "py_round1 (100 * 1 / 10) = 10"
  by code_simp

lemma level3_scenario_B:
  assumes ps: "declared_of node (COVERAGE_CHECKS ! 0) = ps" "distinct ps" "length ps = 10"
    and one_edge: "relevant_edges_of gm outgoing (COVERAGE_CHECKS ! 0) = [e]"
    and one_rec: "filter (\<lambda>md. md_get md ''category'' = PStr ''port_naming'') (mapping_details e)
                  = [md]"
    and names: "md_get md ''ipxact_port'' = PStr p" "p \<in> set ps" "p \<noteq> []"
  shows "\<exists>i. level3_check gm nid node outgoing (COVERAGE_CHECKS ! 0) = Inr [i]
           \<and> severity i = ''FAIL'' \<and> v_node_id i = nid \<and> mapping_category i = ''port_naming''
           \<and> map_of (details i) ''missing'' = Some (strs (sort (removeAll p ps)))
           \<and> length (removeAll p ps) = 9
           \<and> InterpNat 9 \<in> set (message i) \<and> InterpNat 10 \<in> set (message i)
           \<and> InterpList (sort (removeAll p ps)) \<in> set (message i)
           \<and> map_of (details i) ''coverage_pct'' = Some (PNum 10)"
proof -
  let ?c = "COVERAGE_CHECKS ! 0"
  have el: "get_or_empty (defined_elements node) ''ports'' = ps"
    using ps(1) by (simp add: declared_of_def COVERAGE_CHECKS_ports)
  have ne: "ps \<noteq> []" using ps(3) by auto
  have vals: "mapped_values ''port_naming'' ''ipxact_port'' [e] = [PStr p]"
    using one_rec names by (simp add: mapped_values_def)
  have cov: "filter (\<lambda>x. PStr x \<in> set [PStr p]) ps = filter (\<lambda>x. x = p) ps" by simp
  have mis: "filter (\<lambda>x. PStr x \<notin> set [PStr p]) ps = removeAll p ps"
    by (simp add: removeAll_filter_not_eq) (metis)
  have lcov: "length (filter (\<lambda>x. x = p) ps) = 1"
  proof -
    have "length (filter (\<lambda>x. x = p) ps) = card {x \<in> set ps. x = p}"
      using ps(2) by (metis distinct_filter distinct_card set_filter)
    also have "{x \<in> set ps. x = p} = {p}" using names(2) by auto
    finally show ?thesis by simp
  qed
  have lmis: "length (removeAll p ps) = 9"
    using ps(2,3) names(2) by (simp add: distinct_remove1_removeAll [symmetric] length_remove1)
  then have mne: "removeAll p ps \<noteq> []" by auto
  have eq: "level3_check gm nid node outgoing ?c
            = Inr [level3_verdict nid node ?c ps (filter (\<lambda>x. x = p) ps) (removeAll p ps)]"
    using el ne one_edge vals cov mis ps(2) names(2)
    by (simp add: level3_check_def Let_def COVERAGE_CHECKS_ports distinct_remdups_id)
  note v = level3_verdict_fail [OF mne, where nid = nid and node = node and check = ?c
      and defined_set = ps and covered = "filter (\<lambda>x. x = p) ps"]
  have pct: "map_of (details (level3_verdict nid node ?c ps (filter (\<lambda>x. x = p) ps)
                                (removeAll p ps))) ''coverage_pct'' = Some (PNum 10)"
    using v(6) py_round1_ten by (simp add: lcov ps(3))
  have mc: "mapping_category (level3_verdict nid node ?c ps (filter (\<lambda>x. x = p) ps)
                                (removeAll p ps)) = ''port_naming''"
    using v(4) by (simp add: COVERAGE_CHECKS_ports)
  have n9: "InterpNat 9 \<in> set (message (level3_verdict nid node ?c ps (filter (\<lambda>x. x = p) ps)
                                (removeAll p ps)))"
    using v(8) by (simp only: lmis)
  have n10: "InterpNat 10 \<in> set (message (level3_verdict nid node ?c ps (filter (\<lambda>x. x = p) ps)
                                (removeAll p ps)))"
    using v(9) by (simp only: ps(3))
  show ?thesis
    apply (rule exI [of _ "level3_verdict nid node ?c ps (filter (\<lambda>x. x = p) ps) (removeAll p ps)"])
    apply (intro conjI)
             apply (rule eq)
            apply (rule v(1))
           apply (rule v(3))
          apply (rule mc)
         apply (rule v(5))
        apply (rule lmis)
       apply (rule n9)
      apply (rule n10)
     apply (rule v(7))
    apply (rule pct)
    done
qed


lemma filter_three':
  "filter (\<lambda>i. A i \<and> B i \<and> C i) xs = filter C (filter (\<lambda>i. A i \<and> B i) xs)"
  by (induction xs) auto

lemma relevant_edges_eq:
  "relevant_edges_of gm (get_edges_from nid gm) check
   = filter (edge_to_kinds gm nid (target_types check)) (map snd (gm_edges gm))"
  unfolding relevant_edges_of_def get_edges_from_def filter_filter
  by (rule filter_cong [OF refl]) (simp add: edge_to_kinds_def)

lemma has_relevant_iff:
  "relevant_edges_of gm (get_edges_from nid gm) check \<noteq> [] \<longleftrightarrow> has_relevant_edge gm nid check"
  by (simp add: relevant_edges_eq has_relevant_edge_def filter_empty_conv)

lemma covered_values_iff:
  "v \<in> set (covered_values gm (get_edges_from nid gm) check) \<longleftrightarrow> covered_by gm nid check v"
proof
  assume "v \<in> set (covered_values gm (get_edges_from nid gm) check)"
  then obtain md where v: "truthy v" "v = md_get md (element_field_in_mapping check)"
    and cat: "md_get md ''category'' = PStr (c_mapping_category check)"
    and md: "md \<in> set (concat (map mapping_details
               (filter (edge_to_kinds gm nid (target_types check)) (map snd (gm_edges gm)))))"
    unfolding covered_values_def relevant_edges_eq mapped_values_def by auto
  from md obtain e where e: "e \<in> set (map snd (gm_edges gm))"
      "edge_to_kinds gm nid (target_types check) e" "md \<in> set (mapping_details e)"
    by auto
  show "covered_by gm nid check v"
    unfolding covered_by_def
    by (rule bexI [OF _ e(1)], rule conjI [OF e(2)], rule bexI [OF _ e(3)])
       (use v cat in simp)
next
  assume "covered_by gm nid check v"
  then obtain e md where e: "e \<in> set (map snd (gm_edges gm))"
      "edge_to_kinds gm nid (target_types check) e" "md \<in> set (mapping_details e)"
    and cat: "md_get md ''category'' = PStr (c_mapping_category check)"
    and v: "md_get md (element_field_in_mapping check) = v" "truthy v"
    unfolding covered_by_def by blast
  let ?mds = "filter (\<lambda>md. md_get md ''category'' = PStr (c_mapping_category check))
                (concat (map mapping_details
                   (filter (edge_to_kinds gm nid (target_types check)) (map snd (gm_edges gm)))))"
  from e cat have "md \<in> set ?mds" by auto
  then have "md_get md (element_field_in_mapping check)
             \<in> (\<lambda>md. md_get md (element_field_in_mapping check)) ` set ?mds"
    by (rule imageI)
  with v show "v \<in> set (covered_values gm (get_edges_from nid gm) check)"
    unfolding covered_values_def relevant_edges_eq mapped_values_def by simp
qed

lemma level3_verdict_keys:
  "v_node_id (level3_verdict nid node check D C M) = nid"
  "mapping_category (level3_verdict nid node check D C M) = c_mapping_category check"
  "category (level3_verdict nid node check D C M) = ''element_coverage''"
  by (simp_all add: level3_verdict_def Let_def item_def)

lemma level3_check_keys:
  assumes "level3_check gm nid node outgoing check = Inr its" and "i \<in> set its"
  shows "v_node_id i = nid \<and> mapping_category i = c_mapping_category check
         \<and> category i = ''element_coverage''"
  using assms
  by (auto simp: level3_check_def Let_def item_def level3_verdict_keys
           split: if_splits sum.splits)

lemma level3_check_raises:
  "level3_check gm nid node outgoing check = Inl err \<Longrightarrow> \<exists>m. err = TypeError m"
  by (auto simp: level3_check_def Let_def sorted_vals_def split: if_splits sum.splits)

lemma level3_node_Inr:
  assumes "level3_node gm (nid, node) = Inr zs" and "defined_elements node \<noteq> []"
  shows "zs = concat (map (\<lambda>c. items_of (level3_check gm nid node (get_edges_from nid gm) c))
                      COVERAGE_CHECKS)
       \<and> (\<forall>c \<in> set COVERAGE_CHECKS.
             \<exists>its. level3_check gm nid node (get_edges_from nid gm) c = Inr its)"
proof -
  from assms have "collect (level3_check gm nid node (get_edges_from nid gm)) COVERAGE_CHECKS
                   = Inr zs"
    by (simp add: level3_node_def)
  then show ?thesis by (rule collect_Inr)
qed

lemma level3_node_keys:
  assumes "i \<in> set (items_of (level3_node gm (nid, node)))"
  shows "v_node_id i = nid \<and> category i = ''element_coverage''"
proof (cases "level3_node gm (nid, node)")
  case (Inl err)
  with assms show ?thesis by (simp add: items_of_def)
next
  case (Inr zs)
  with assms have i: "i \<in> set zs" by (simp add: items_of_def)
  show ?thesis
  proof (cases "defined_elements node = []")
    case True
    with Inr i show ?thesis by (simp add: level3_node_def)
  next
    case False
    note r = level3_node_Inr [OF Inr False]
    from i conjunct1 [OF r] obtain c where c: "c \<in> set COVERAGE_CHECKS"
        "i \<in> set (items_of (level3_check gm nid node (get_edges_from nid gm) c))"
      by auto
    from conjunct2 [OF r] c(1) obtain its
      where its: "level3_check gm nid node (get_edges_from nid gm) c = Inr its" by blast
    with c(2) have "i \<in> set its" by (simp add: items_of_def)
    with its show ?thesis using level3_check_keys by blast
  qed
qed

lemma level3_raises_only_TypeError:
  assumes "level3_element_coverage gm = Inl err"
  shows "\<exists>m. err = TypeError m"
proof -
  from assms obtain nid node where "level3_node gm (nid, node) = Inl err"
    unfolding level3_element_coverage_def by (metis collect_Inl prod.collapse)
  then obtain c where "level3_check gm nid node (get_edges_from nid gm) c = Inl err"
    by (auto simp: level3_node_def dest: collect_Inl split: if_splits)
  then show ?thesis by (rule level3_check_raises)
qed

lemma level3_by_node_and_category:
  assumes nodes: "distinct (map fst (gm_nodes gm))" "(nid, node) \<in> set (gm_nodes gm)"
    and pass: "level3_element_coverage gm = Inr its"
    and ne: "declared_of node check \<noteq> []" and c: "check \<in> set COVERAGE_CHECKS"
  shows "\<exists>its_c. level3_check gm nid node (get_edges_from nid gm) check = Inr its_c
           \<and> filter (\<lambda>i. v_node_id i = nid \<and> mapping_category i = c_mapping_category check) its
               = its_c"
proof -
  note p = collect_Inr [OF pass [unfolded level3_element_coverage_def]]
  have its: "its = concat (map (\<lambda>x. items_of (level3_node gm x)) (gm_nodes gm))"
    by (rule conjunct1 [OF p])
  from conjunct2 [OF p] nodes(2) obtain zs where zs: "level3_node gm (nid, node) = Inr zs"
    by blast
  have k: "\<forall>y \<in> set (gm_nodes gm). \<forall>i \<in> set (items_of (level3_node gm y)). v_node_id i = fst y"
    using level3_node_keys by (metis prod.collapse)
  have "filter (\<lambda>i. v_node_id i = fst (nid, node))
          (concat (map (\<lambda>x. items_of (level3_node gm x)) (gm_nodes gm)))
        = items_of (level3_node gm (nid, node))"
    by (rule filter_concat_pick [OF nodes(1) nodes(2) k])
  then have A: "filter (\<lambda>i. v_node_id i = nid) its = zs"
    by (simp add: its zs items_of_def)
  have de: "defined_elements node \<noteq> []"
    using ne by (auto simp: declared_of_def get_or_empty_def)
  note r = level3_node_Inr [OF zs de]
  have zs_eq: "zs = concat (map (\<lambda>c. items_of (level3_check gm nid node (get_edges_from nid gm) c))
                      COVERAGE_CHECKS)"
    by (rule conjunct1 [OF r])
  from conjunct2 [OF r] c obtain its_c
    where ic: "level3_check gm nid node (get_edges_from nid gm) check = Inr its_c" by blast
  have dc: "distinct (map c_mapping_category COVERAGE_CHECKS)"
    by (simp add: COVERAGE_CHECKS_def)
  have kc: "\<forall>y \<in> set COVERAGE_CHECKS.
              \<forall>i \<in> set (items_of (level3_check gm nid node (get_edges_from nid gm) y)).
                mapping_category i = c_mapping_category y"
  proof (intro ballI)
    fix y i
    assume i: "i \<in> set (items_of (level3_check gm nid node (get_edges_from nid gm) y))"
    show "mapping_category i = c_mapping_category y"
    proof (cases "level3_check gm nid node (get_edges_from nid gm) y")
      case (Inl err)
      with i show ?thesis by (simp add: items_of_def)
    next
      case (Inr xs)
      with i have "i \<in> set xs" by (simp add: items_of_def)
      with Inr show ?thesis using level3_check_keys by blast
    qed
  qed
  have "filter (\<lambda>i. mapping_category i = c_mapping_category check)
          (concat (map (\<lambda>c. items_of (level3_check gm nid node (get_edges_from nid gm) c))
                     COVERAGE_CHECKS))
        = items_of (level3_check gm nid node (get_edges_from nid gm) check)"
    by (rule filter_concat_pick [OF dc c kc])
  then have B: "filter (\<lambda>i. mapping_category i = c_mapping_category check) zs = its_c"
    by (simp add: zs_eq ic items_of_def)
  have "filter (\<lambda>i. v_node_id i = nid \<and> mapping_category i = c_mapping_category check) its = its_c"
    unfolding filter_two A by (rule B)
  with ic show ?thesis by blast
qed

lemma level3_general_pass:
  assumes nodes: "distinct (map fst (gm_nodes gm))" "(nid, node) \<in> set (gm_nodes gm)"
    and pass: "level3_element_coverage gm = Inr its"
    and c: "check \<in> set COVERAGE_CHECKS"
    and hr: "has_relevant_edge gm nid check"
    and absent: "\<exists>x \<in> set (declared_of node check). \<not> covered_by gm nid check (PStr x)"
  shows "\<exists>i missing.
           filter (\<lambda>i. v_node_id i = nid \<and> mapping_category i = c_mapping_category check
                        \<and> severity i = ''FAIL'') its = [i]
         \<and> v_node_id i = nid \<and> mapping_category i = c_mapping_category check
         \<and> map_of (details i) ''missing'' = Some (strs missing)
         \<and> InterpList missing \<in> set (message i)
         \<and> sorted missing \<and> distinct missing
         \<and> set missing = {x \<in> set (declared_of node check). \<not> covered_by gm nid check (PStr x)}
         \<and> map_of (details i) ''coverage_pct''
             = Some (PNum (py_round1
                 (100 * of_nat (card {x \<in> set (declared_of node check).
                                        covered_by gm nid check (PStr x)})
                  / of_nat (card (set (declared_of node check))))))"
proof -
  from absent have ne: "declared_of node check \<noteq> []" by auto
  from level3_by_node_and_category [OF nodes pass ne c] obtain its_c
    where ic: "level3_check gm nid node (get_edges_from nid gm) check = Inr its_c"
      and f: "filter (\<lambda>i. v_node_id i = nid \<and> mapping_category i = c_mapping_category check) its
              = its_c"
    by blast
  have rel: "relevant_edges_of gm (get_edges_from nid gm) check \<noteq> []"
    using hr by (simp add: has_relevant_iff)
  have ab: "\<exists>x \<in> set (declared_of node check).
              PStr x \<notin> set (covered_values gm (get_edges_from nid gm) check)"
    using absent by (simp add: covered_values_iff)
  note g = level3_general [OF ic rel ab, unfolded covered_values_iff]
  have ff: "filter (\<lambda>i. v_node_id i = nid \<and> mapping_category i = c_mapping_category check
                        \<and> severity i = ''FAIL'') its
            = filter (\<lambda>i. severity i = ''FAIL'') its_c"
    unfolding f [symmetric] by (rule filter_three')
  from g show ?thesis unfolding ff .
qed

lemma level3_scenario_B_pass:
  assumes nodes: "distinct (map fst (gm_nodes gm))" "(nid, node) \<in> set (gm_nodes gm)"
    and pass: "level3_element_coverage gm = Inr its"
    and ps: "declared_of node (COVERAGE_CHECKS ! 0) = ps" "distinct ps" "length ps = 10"
    and one_edge: "filter (edge_to_kinds gm nid [RTL_WRAPPER]) (map snd (gm_edges gm)) = [e]"
    and one_rec: "filter (\<lambda>md. md_get md ''category'' = PStr ''port_naming'') (mapping_details e)
                  = [md]"
    and names: "md_get md ''ipxact_port'' = PStr p" "p \<in> set ps" "p \<noteq> []"
  shows "\<exists>i. filter (\<lambda>i. v_node_id i = nid \<and> mapping_category i = ''port_naming'') its = [i]
           \<and> severity i = ''FAIL'' \<and> v_node_id i = nid \<and> mapping_category i = ''port_naming''
           \<and> map_of (details i) ''missing'' = Some (strs (sort (removeAll p ps)))
           \<and> length (removeAll p ps) = 9
           \<and> InterpNat 9 \<in> set (message i) \<and> InterpNat 10 \<in> set (message i)
           \<and> InterpList (sort (removeAll p ps)) \<in> set (message i)
           \<and> map_of (details i) ''coverage_pct'' = Some (PNum 10)"
proof -
  let ?c = "COVERAGE_CHECKS ! 0"
  have c: "?c \<in> set COVERAGE_CHECKS" by (simp add: COVERAGE_CHECKS_def)
  have ne: "declared_of node ?c \<noteq> []" using ps(1,3) by auto
  have cat: "c_mapping_category ?c = ''port_naming''" by (simp add: COVERAGE_CHECKS_ports)
  from level3_by_node_and_category [OF nodes pass ne c] obtain its_c
    where ic: "level3_check gm nid node (get_edges_from nid gm) ?c = Inr its_c"
      and f: "filter (\<lambda>i. v_node_id i = nid \<and> mapping_category i = ''port_naming'') its = its_c"
    unfolding cat by blast
  have re: "relevant_edges_of gm (get_edges_from nid gm) ?c = [e]"
    using one_edge by (simp add: relevant_edges_eq COVERAGE_CHECKS_ports)
  from level3_scenario_B [OF ps re one_rec names, of nid]
  obtain i where i: "level3_check gm nid node (get_edges_from nid gm) ?c = Inr [i]
           \<and> severity i = ''FAIL'' \<and> v_node_id i = nid \<and> mapping_category i = ''port_naming''
           \<and> map_of (details i) ''missing'' = Some (strs (sort (removeAll p ps)))
           \<and> length (removeAll p ps) = 9
           \<and> InterpNat 9 \<in> set (message i) \<and> InterpNat 10 \<in> set (message i)
           \<and> InterpList (sort (removeAll p ps)) \<in> set (message i)
           \<and> map_of (details i) ''coverage_pct'' = Some (PNum 10)" ..
  from conjunct1 [OF i] ic have "its_c = [i]" by simp
  with f have fi: "filter (\<lambda>i. v_node_id i = nid \<and> mapping_category i = ''port_naming'') its = [i]"
    by simp
  show ?thesis
    by (rule exI [of _ i]) (rule conjI [OF fi conjunct2 [OF i]])
qed

text \<open>Claim C8. Take a store whose node table is a dictionary, a node of it, and a run of the
  coverage pass that returns (the pass raises nothing but TypeError, on identifier values
  that cannot be hashed or sorted). For every coverage check with at least one relevant
  edge and a declared element that is not in the covered-set, the pass holds exactly one
  FAIL item for that node and mapping category; its details and message list exactly the
  uncovered declared elements, sorted, and its details give the coverage percentage, the
  number of covered declared elements over the number of declared ones, as Python rounds
  it to one decimal. In scenario B (ten distinct declared ports, exactly one outgoing edge
  to an RTL wrapper, carrying exactly one port_naming record, which names a declared port)
  the pass holds for the node's port coverage that one FAIL item alone: nine missing ports,
  and a coverage of 10.0 percent.\<close>

theorem level3_fail_names_uncovered:
  assumes "distinct (map fst (gm_nodes gm))" and "(nid, node) \<in> set (gm_nodes gm)"
    and "level3_element_coverage gm = Inr its"
  shows "(check \<in> set COVERAGE_CHECKS \<and> has_relevant_edge gm nid check
     \<and> (\<exists>x \<in> set (declared_of node check). \<not> covered_by gm nid check (PStr x))
    \<longrightarrow> (\<exists>i missing.
           filter (\<lambda>i. v_node_id i = nid \<and> mapping_category i = c_mapping_category check
                        \<and> severity i = ''FAIL'') its = [i]
         \<and> v_node_id i = nid \<and> mapping_category i = c_mapping_category check
         \<and> map_of (details i) ''missing'' = Some (strs missing)
         \<and> InterpList missing \<in> set (message i)
         \<and> sorted missing \<and> distinct missing
         \<and> set missing = {x \<in> set (declared_of node check). \<not> covered_by gm nid check (PStr x)}
         \<and> map_of (details i) ''coverage_pct''
             = Some (PNum (py_round1
                 (100 * of_nat (card {x \<in> set (declared_of node check).
                                        covered_by gm nid check (PStr x)})
                  / of_nat (card (set (declared_of node check))))))))
   \<and> (declared_of node (COVERAGE_CHECKS ! 0) = ps \<and> distinct ps \<and> length ps = 10
      \<and> filter (edge_to_kinds gm nid [RTL_WRAPPER]) (map snd (gm_edges gm)) = [e]
      \<and> filter (\<lambda>md. md_get md ''category'' = PStr ''port_naming'') (mapping_details e) = [md]
      \<and> md_get md ''ipxact_port'' = PStr p \<and> p \<in> set ps \<and> p \<noteq> []
    \<longrightarrow> (\<exists>i. filter (\<lambda>i. v_node_id i = nid \<and> mapping_category i = ''port_naming'') its = [i]
           \<and> severity i = ''FAIL'' \<and> v_node_id i = nid \<and> mapping_category i = ''port_naming''
           \<and> map_of (details i) ''missing'' = Some (strs (sort (removeAll p ps)))
           \<and> length (removeAll p ps) = 9
           \<and> InterpNat 9 \<in> set (message i) \<and> InterpNat 10 \<in> set (message i)
           \<and> InterpList (sort (removeAll p ps)) \<in> set (message i)
           \<and> map_of (details i) ''coverage_pct'' = Some (PNum 10)))"
proof (intro conjI impI)
  assume "check \<in> set COVERAGE_CHECKS \<and> has_relevant_edge gm nid check
     \<and> (\<exists>x \<in> set (declared_of node check). \<not> covered_by gm nid check (PStr x))"
  then show "\<exists>i missing.
           filter (\<lambda>i. v_node_id i = nid \<and> mapping_category i = c_mapping_category check
                        \<and> severity i = ''FAIL'') its = [i]
         \<and> v_node_id i = nid \<and> mapping_category i = c_mapping_category check
         \<and> map_of (details i) ''missing'' = Some (strs missing)
         \<and> InterpList missing \<in> set (message i)
         \<and> sorted missing \<and> distinct missing
         \<and> set missing = {x \<in> set (declared_of node check). \<not> covered_by gm nid check (PStr x)}
         \<and> map_of (details i) ''coverage_pct''
             = Some (PNum (py_round1
                 (100 * of_nat (card {x \<in> set (declared_of node check).
                                        covered_by gm nid check (PStr x)})
                  / of_nat (card (set (declared_of node check))))))"
    by (elim conjE) (rule level3_general_pass [OF assms])
next
  assume "declared_of node (COVERAGE_CHECKS ! 0) = ps \<and> distinct ps \<and> length ps = 10
      \<and> filter (edge_to_kinds gm nid [RTL_WRAPPER]) (map snd (gm_edges gm)) = [e]
      \<and> filter (\<lambda>md. md_get md ''category'' = PStr ''port_naming'') (mapping_details e) = [md]
      \<and> md_get md ''ipxact_port'' = PStr p \<and> p \<in> set ps \<and> p \<noteq> []"
  then show "\<exists>i. filter (\<lambda>i. v_node_id i = nid \<and> mapping_category i = ''port_naming'') its = [i]
           \<and> severity i = ''FAIL'' \<and> v_node_id i = nid \<and> mapping_category i = ''port_naming''
           \<and> map_of (details i) ''missing'' = Some (strs (sort (removeAll p ps)))
           \<and> length (removeAll p ps) = 9
           \<and> InterpNat 9 \<in> set (message i) \<and> InterpNat 10 \<in> set (message i)
           \<and> InterpList (sort (removeAll p ps)) \<in> set (message i)
           \<and> map_of (details i) ''coverage_pct'' = Some (PNum 10)"
    by (elim conjE) (rule level3_scenario_B_pass [OF assms])
qed

theorem level3_fail_names_uncovered_witness:
  "(\<exists>i. filter (\<lambda>i. v_node_id i = ''comp'' \<and> mapping_category i = ''port_naming'')
           (items_of (level3_element_coverage ex_scenario_B)) = [i]
       \<and> severity i = ''FAIL''
       \<and> map_of (details i) ''coverage_pct'' = Some (PNum 10))
   \<and> (\<exists>i missing.
         filter (\<lambda>i. v_node_id i = ''comp''
                      \<and> mapping_category i = c_mapping_category (COVERAGE_CHECKS ! 0)
                      \<and> severity i = ''FAIL'')
           (items_of (level3_element_coverage ex_scenario_B)) = [i]
       \<and> map_of (details i) ''missing'' = Some (strs missing) \<and> sorted missing)
   \<and> map severity (items_of (level3_element_coverage ex_scenario_B)) = [''FAIL'']"
proof -
  let ?its = "items_of (level3_element_coverage ex_scenario_B)"
  let ?c = "COVERAGE_CHECKS ! 0"
  have n1: "distinct (map fst (gm_nodes ex_scenario_B))" by code_simp
  have n2: "(''comp'', ex_comp_B) \<in> set (gm_nodes ex_scenario_B)" by code_simp
  have pass: "level3_element_coverage ex_scenario_B = Inr ?its" by code_simp
  note T = level3_fail_names_uncovered [OF n1 n2 pass, where check = ?c and ps = ex_port_names
      and e = ex_scenario_B_edge and md = ex_port_naming and p = "''p3''"]
  have hA: "?c \<in> set COVERAGE_CHECKS \<and> has_relevant_edge ex_scenario_B ''comp'' ?c
     \<and> (\<exists>x \<in> set (declared_of ex_comp_B ?c). \<not> covered_by ex_scenario_B ''comp'' ?c (PStr x))"
    by code_simp
  have hB: "declared_of ex_comp_B ?c = ex_port_names \<and> distinct ex_port_names
      \<and> length ex_port_names = 10
      \<and> filter (edge_to_kinds ex_scenario_B ''comp'' [RTL_WRAPPER])
           (map snd (gm_edges ex_scenario_B)) = [ex_scenario_B_edge]
      \<and> filter (\<lambda>md. md_get md ''category'' = PStr ''port_naming'')
           (mapping_details ex_scenario_B_edge) = [ex_port_naming]
      \<and> md_get ex_port_naming ''ipxact_port'' = PStr ''p3'' \<and> ''p3'' \<in> set ex_port_names
      \<and> ''p3'' \<noteq> []"
    by code_simp
  from mp [OF conjunct2 [OF T] hB]
  obtain i where i: "filter (\<lambda>i. v_node_id i = ''comp'' \<and> mapping_category i = ''port_naming'') ?its
        = [i]" "severity i = ''FAIL''" "map_of (details i) ''coverage_pct'' = Some (PNum 10)"
    by (elim exE conjE) (rule that)
  from mp [OF conjunct1 [OF T] hA]
  obtain j missing where j: "filter (\<lambda>i. v_node_id i = ''comp''
                      \<and> mapping_category i = c_mapping_category ?c
                      \<and> severity i = ''FAIL'') ?its = [j]"
      "map_of (details j) ''missing'' = Some (strs missing)" "sorted missing"
    by (elim exE conjE) (rule that)
  have s: "map severity ?its = [''FAIL'']" by code_simp
  show ?thesis
    apply (intro conjI)
      apply (rule exI [of _ i])
      apply (rule conjI [OF i(1) conjI [OF i(2) i(3)]])
     apply (rule exI [of _ j], rule exI [of _ missing])
     apply (rule conjI [OF j(1) conjI [OF j(2) j(3)]])
    apply (rule s)
    done
qed

end
